theory Spec2Isabelle
  imports Main
begin

section \<open>JavaScript string primitives\<close>

text \<open>
  Source strings are modelled as \<open>string\<close> (a list of \<open>char\<close>): one \<open>char\<close> stands for one
  code unit of the JavaScript string, restricted to the range 0..255. Offsets are \<open>int\<close>,
  since \<open>indexOf\<close> answers \<open>-1\<close> when nothing is found.
\<close>

text \<open>The class \<open>\s\<close> of regular expressions, which is also what \<open>String.prototype.trim\<close>
  removes: TAB, LF, VT, FF, CR, SPACE and NBSP in this range.\<close>

definition isWhitespace :: "char \<Rightarrow> bool" where
  "isWhitespace c = (c \<in> set [CHR 0x09, CHR 0x0A, CHR 0x0B, CHR 0x0C, CHR 0x0D, CHR 0x20, CHR 0xA0])"

text \<open>The class \<open>\w\<close>: \<open>[A-Za-z0-9_]\<close>.\<close>

definition isWordChar :: "char \<Rightarrow> bool" where
  "isWordChar c = (let n = (of_char c :: nat) in
     (48 \<le> n \<and> n \<le> 57) \<or> (65 \<le> n \<and> n \<le> 90) \<or> n = 95 \<or> (97 \<le> n \<and> n \<le> 122))"

text \<open>The characters that \<open>.\<close> does not match: LF and CR in this range.\<close>

definition isLineTerminator :: "char \<Rightarrow> bool" where
  "isLineTerminator c = (c = CHR 0x0A \<or> c = CHR 0x0D)"

definition trim :: "string \<Rightarrow> string" where
  "trim s = rev (dropWhile isWhitespace (rev (dropWhile isWhitespace s)))"

definition lowerChar :: "char \<Rightarrow> char" where
  "lowerChar c = (let n = (of_char c :: nat) in
     if (65 \<le> n \<and> n \<le> 90) \<or> (192 \<le> n \<and> n \<le> 222 \<and> n \<noteq> 215)
     then char_of (n + 32) else c)"

definition toLowerCase :: "string \<Rightarrow> string" where
  "toLowerCase s = map lowerChar s"

definition startsWith :: "string \<Rightarrow> string \<Rightarrow> bool" where
  "startsWith s p = (take (length p) s = p)"

text \<open>\<open>findSub pat s\<close> is the first offset at which \<open>pat\<close> occurs in \<open>s\<close>.\<close>

fun findSub :: "string \<Rightarrow> string \<Rightarrow> nat option" where
  "findSub pat [] = (if pat = [] then Some 0 else None)"
| "findSub pat (c # cs) =
     (if startsWith (c # cs) pat then Some 0 else map_option Suc (findSub pat cs))"

definition indexOfFrom :: "string \<Rightarrow> string \<Rightarrow> nat \<Rightarrow> int" where
  "indexOfFrom s pat from =
     (case findSub pat (drop from s) of None \<Rightarrow> - 1 | Some k \<Rightarrow> int (from + k))"

definition indexOf :: "string \<Rightarrow> string \<Rightarrow> int" where
  "indexOf s pat = indexOfFrom s pat 0"

text \<open>\<open>s.substring(a)\<close> and \<open>s.substring(a, b)\<close> for \<open>0 \<le> a \<le> b\<close>.\<close>

definition substringFrom :: "string \<Rightarrow> nat \<Rightarrow> string" where
  "substringFrom s a = drop a s"


text \<open>A number in a template literal: its decimal digits.\<close>

fun showNat :: "nat \<Rightarrow> string" where
  "showNat n = (if n < 10 then [char_of (48 + n)] else showNat (n div 10) @ [char_of (48 + n mod 10)])"

text \<open>\<open>text.split(/\r?\n/)\<close>: a line ends at LF, and a CR right before that LF belongs to the
  separator. The result always has at least one line.\<close>

fun splitLines :: "string \<Rightarrow> string list" where
  "splitLines [] = [ [] ]"
| "splitLines (c # cs) =
     (if c = CHR 0x0A then [] # splitLines cs
      else if c = CHR 0x0D \<and> cs \<noteq> [] \<and> hd cs = CHR 0x0A then [] # splitLines (tl cs)
      else (case splitLines cs of
              [] \<Rightarrow> [ [c] ]
            | l # ls \<Rightarrow> (c # l) # ls))"

section \<open>Data model (types.ts)\<close>

record Position =
  line :: int
  character :: int

record Range =
  rstart :: Position
  rend :: Position

datatype Severity = SevError | SevWarning | SevInfo | SevHint

record ParseError =
  message :: string
  erange :: Range
  severity :: Severity
  code :: string

definition makeRange :: "int \<Rightarrow> int \<Rightarrow> int \<Rightarrow> Range" where
  "makeRange ln s e = \<lparr>rstart = \<lparr>line = ln, character = s\<rparr>, rend = \<lparr>line = ln, character = e\<rparr>\<rparr>"

definition TILDE_COMMANDS :: "string list" where
  "TILDE_COMMANDS = [''if'', ''ifd'', ''set'', ''setif'', ''call'', ''callif'', ''disabled'', ''once'']"

section \<open>Lexer: validation of tilde commands\<close>

text \<open>
  The loop of \<open>validateConditionExpression\<close> and of \<open>validateSetExpression\<close>; the two loops
  differ in the message of the error only, which is the parameter \<open>msg\<close>. The state of the
  loop is the index \<open>i\<close>, \<open>parenCount\<close>, \<open>foundError\<close> and the error list of the lexer.
\<close>

fun parenLoop ::
  "string \<Rightarrow> int \<Rightarrow> int \<Rightarrow> string \<Rightarrow> int \<Rightarrow> int \<Rightarrow> bool \<Rightarrow> ParseError list
    \<Rightarrow> int \<times> ParseError list" where
  "parenLoop msg lineNum startOffset [] i parenCount foundError errs = (parenCount, errs)"
| "parenLoop msg lineNum startOffset (c # cs) i parenCount foundError errs =
     (let pc1 = (if c = CHR ''('' then parenCount + 1 else parenCount);
          pc2 = (if c = CHR '')'' then pc1 - 1 else pc1)
      in if pc2 < 0 \<and> \<not> foundError
         then parenLoop msg lineNum startOffset cs (i + 1) 0 True
                (errs @ [\<lparr>message = msg,
                           erange = makeRange lineNum (startOffset + i) (startOffset + i + 1),
                           severity = SevError,
                           code = ''unbalanced-parens''\<rparr>])
         else parenLoop msg lineNum startOffset cs (i + 1) pc2 foundError errs)"

definition validateConditionExpression ::
  "string \<Rightarrow> int \<Rightarrow> int \<Rightarrow> ParseError list \<Rightarrow> ParseError list" where
  "validateConditionExpression expr lineNum startOffset errs =
     (let trimmed = trim expr;
          (parenCount, errs1) =
             parenLoop ''Unbalanced parentheses: unexpected )'' lineNum startOffset trimmed 0 0 False errs
      in if parenCount > 0
         then errs1 @ [\<lparr>message = ''Unbalanced parentheses: missing )'',
                          erange = makeRange lineNum startOffset (startOffset + int (length trimmed)),
                          severity = SevError,
                          code = ''unbalanced-parens''\<rparr>]
         else errs1)"

definition validateSetExpression ::
  "string \<Rightarrow> int \<Rightarrow> int \<Rightarrow> ParseError list \<Rightarrow> ParseError list" where
  "validateSetExpression expr lineNum startOffset errs =
     (let trimmed = trim expr;
          (parenCount, errs1) =
             parenLoop ''Unbalanced parentheses in set expression'' lineNum startOffset trimmed 0 0 False errs
      in if parenCount > 0
         then errs1 @ [\<lparr>message = ''Unbalanced parentheses: missing )'',
                          erange = makeRange lineNum startOffset (startOffset + int (length trimmed)),
                          severity = SevError,
                          code = ''unbalanced-parens''\<rparr>]
         else errs1)"

definition validateTildeCommand ::
  "string \<Rightarrow> string \<Rightarrow> int \<Rightarrow> int \<Rightarrow> ParseError list \<Rightarrow> ParseError list" where
  "validateTildeCommand cmd expression lineNum startIdx errs =
     (if cmd = ''disabled'' \<or> cmd = ''once'' then errs
      else if trim expression = [] then
        (if cmd = ''set'' \<or> cmd = ''call'' then errs
         else errs @ [\<lparr>message = ''~'' @ cmd @ '' requires a condition or expression'',
                         erange = makeRange lineNum startIdx (startIdx + int (length cmd) + 1),
                         severity = SevWarning,
                         code = ''empty-tilde-expression''\<rparr>])
      else
        (let errs1 = (if cmd = ''if'' \<or> cmd = ''ifd''
                      then validateConditionExpression expression lineNum
                             (startIdx + int (length cmd) + 2) errs
                      else errs)
         in if cmd = ''set'' \<or> cmd = ''setif''
            then validateSetExpression expression lineNum (startIdx + int (length cmd) + 2) errs1
            else errs1))"

section \<open>Lexer: tokens and line classification\<close>

datatype TokenType =
    STORY_HEADER | CHOICE | CHOICE_ID | JUMP | PAGE_BREAK
  | TILDE_IF | TILDE_IFD | TILDE_SET | TILDE_SETIF | TILDE_CALL | TILDE_CALLIF
  | TILDE_DISABLED | TILDE_ONCE
  | BRACKET_IF | BRACKET_ELSE | BRACKET_ELSEIF | BRACKET_ENDIF | BRACKET_OR | BRACKET_VAR
  | BRACKET_RANDOM
  | COMMENT_LINE | COMMENT_BLOCK_START | COMMENT_BLOCK_END
  | VARIABLE | OPERATOR | NUMBER | BOOLEAN | NULL | IDENTIFIER
  | TEXT | NEWLINE | WHITESPACE | EOF | ERROR

datatype LineType =
    LT_EMPTY | LT_COMMENT | LT_STORY_HEADER | LT_TILDE_COMMAND | LT_CHOICE | LT_CHOICE_ID
  | LT_JUMP | LT_PAGE_BREAK | LT_TEXT | LT_IN_BLOCK_COMMENT

datatype JumpType = normal | silent | nobreak

text \<open>The optional \<open>data\<close> object of a token; an absent property is \<open>None\<close>.\<close>

record TokenData =
  choiceLevel :: "nat option"
  jumpType :: "JumpType option"
  targetId :: "string option"
  choiceId :: "string option"
  storyId :: "string option"
  isHidden :: "bool option"
  condition :: "string option"

definition noData :: TokenData where
  "noData = \<lparr>choiceLevel = None, jumpType = None, targetId = None, choiceId = None,
              storyId = None, isHidden = None, condition = None\<rparr>"

record Token =
  ttype :: TokenType
  tvalue :: string
  trange :: Range
  tdata :: "TokenData option"

record LexerState =
  tokens :: "Token list"
  errors :: "ParseError list"
  lineTypes :: "LineType list"
  inBlockComment :: bool
  blockCommentStart :: "Position option"

definition pushToken :: "Token \<Rightarrow> LexerState \<Rightarrow> LexerState" where
  "pushToken t st = st\<lparr>tokens := tokens st @ [t]\<rparr>"

definition pushError :: "ParseError \<Rightarrow> LexerState \<Rightarrow> LexerState" where
  "pushError e st = st\<lparr>errors := errors st @ [e]\<rparr>"

definition pushLineType :: "LineType \<Rightarrow> LexerState \<Rightarrow> LexerState" where
  "pushLineType t st = st\<lparr>lineTypes := lineTypes st @ [t]\<rparr>"

subsection \<open>The regular expressions of \<open>tokenizeLine\<close>\<close>

text \<open>
  Each matcher takes the trimmed line and answers the capture groups of the match, or
  \<open>None\<close>. Every quantifier of these expressions is greedy and is followed by a class it is
  disjoint from, or by \<open>.*$\<close>, so the first match of the backtracking search is the one that
  takes each run whole; \<open>.*$\<close> fails exactly when a line terminator is left in the rest.
\<close>

text \<open>\<open>/^===\s+(\w+)/\<close>: the matched text and the story identifier.\<close>

definition storyMatch :: "string \<Rightarrow> (string \<times> string) option" where
  "storyMatch t =
     (if startsWith t ''==='' then
        (let r = drop 3 t;
             ws = takeWhile isWhitespace r;
             w = takeWhile isWordChar (dropWhile isWhitespace r)
         in if ws \<noteq> [] \<and> w \<noteq> [] then Some (''==='' @ ws @ w, w) else None)
      else None)"

text \<open>\<open>/^~(\w+)\s*(.*)?$/\<close>: the command word and the rest (empty when group 2 is undefined).\<close>

definition tildeMatch :: "string \<Rightarrow> (string \<times> string) option" where
  "tildeMatch t =
     (case t of
        [] \<Rightarrow> None
      | c # r \<Rightarrow>
          if c \<noteq> CHR ''~'' then None
          else (let w = takeWhile isWordChar r;
                    rest = dropWhile isWhitespace (dropWhile isWordChar r)
                in if w \<noteq> [] \<and> \<not> list_ex isLineTerminator rest then Some (w, rest) else None))"

text \<open>\<open>/^(>{1,3})(!?)\s*(.*)$/\<close>: the arrows, the bang and the rest.\<close>

definition jumpMatch :: "string \<Rightarrow> (string \<times> string \<times> string) option" where
  "jumpMatch t =
     (let arrows = take 3 (takeWhile (\<lambda>c. c = CHR ''>'') t);
          r = drop (length arrows) t;
          bang = (if r \<noteq> [] \<and> hd r = CHR ''!'' then ''!'' else []);
          rest = dropWhile isWhitespace (drop (length bang) r)
      in if arrows \<noteq> [] \<and> \<not> list_ex isLineTerminator rest then Some (arrows, bang, rest)
         else None)"

text \<open>\<open>/^=\s*(\w+)\s*$/\<close>: the identifier.\<close>

definition choiceIdMatch :: "string \<Rightarrow> string option" where
  "choiceIdMatch t =
     (case t of
        [] \<Rightarrow> None
      | c # r \<Rightarrow>
          if c \<noteq> CHR ''='' then None
          else (let r1 = dropWhile isWhitespace r;
                    w = takeWhile isWordChar r1
                in if w \<noteq> [] \<and> dropWhile isWhitespace (dropWhile isWordChar r1) = []
                   then Some w else None))"

text \<open>\<open>/^(\*+)(=?)\s*(.*)$/\<close>: the stars, the hidden marker and the rest.\<close>

definition choiceMatch :: "string \<Rightarrow> (string \<times> string \<times> string) option" where
  "choiceMatch t =
     (let stars = takeWhile (\<lambda>c. c = CHR ''*'') t;
          r = drop (length stars) t;
          eq = (if r \<noteq> [] \<and> hd r = CHR ''='' then ''='' else []);
          rest = dropWhile isWhitespace (drop (length eq) r)
      in if stars \<noteq> [] \<and> \<not> list_ex isLineTerminator rest then Some (stars, eq, rest)
         else None)"

text \<open>\<open>/^(\w+)\s*$/\<close>, on the rest of a hidden-choice line.\<close>

definition idMatch :: "string \<Rightarrow> string option" where
  "idMatch t =
     (let w = takeWhile isWordChar t
      in if w \<noteq> [] \<and> dropWhile isWhitespace (dropWhile isWordChar t) = [] then Some w
         else None)"

text \<open>\<open>/^-\s*$/\<close>.\<close>

definition pageBreakMatch :: "string \<Rightarrow> bool" where
  "pageBreakMatch t =
     (case t of [] \<Rightarrow> False | c # r \<Rightarrow> c = CHR ''-'' \<and> dropWhile isWhitespace r = [])"

text \<open>\<open>s.split(/\s/)[0]\<close>.\<close>

definition firstWord :: "string \<Rightarrow> string" where
  "firstWord s = takeWhile (\<lambda>c. \<not> isWhitespace c) s"

subsection \<open>\<open>tokenizeLine\<close> and \<open>tokenize\<close>\<close>

definition tokenizeLineContent :: "int \<Rightarrow> int \<Rightarrow> string \<Rightarrow> LexerState \<Rightarrow> LexerState" where
  "tokenizeLineContent lineNum startOffset content st =
     (if trim content \<noteq> []
      then pushToken \<lparr>ttype = TEXT, tvalue = content,
                       trange = makeRange lineNum startOffset (startOffset + int (length content)),
                       tdata = None\<rparr> st
      else st)"

definition getTildeTokenType :: "string \<Rightarrow> TokenType" where
  "getTildeTokenType cmd =
     (let c = toLowerCase cmd
      in if c = ''if'' then TILDE_IF
         else if c = ''ifd'' then TILDE_IFD
         else if c = ''set'' then TILDE_SET
         else if c = ''setif'' then TILDE_SETIF
         else if c = ''call'' then TILDE_CALL
         else if c = ''callif'' then TILDE_CALLIF
         else if c = ''disabled'' then TILDE_DISABLED
         else if c = ''once'' then TILDE_ONCE
         else ERROR)"

text \<open>
  \<open>tokenizeLine\<close> is a chain of branches that each end in \<open>return\<close>. Every branch is a
  definition of its own here, in the order of the source, and \<open>tokenizeLine\<close> below is the
  chain of their conditions.
\<close>

text \<open>"Handle block comment continuation": the line is read while \<open>inBlockComment\<close> is set.\<close>

definition lexBlockCommentContinuation :: "string \<Rightarrow> int \<Rightarrow> LexerState \<Rightarrow> LexerState" where
  "lexBlockCommentContinuation ln lineNum st =
     (let endIdx = indexOf ln ''*/'' in
      if endIdx \<noteq> - 1 then
        (let st1 = pushToken \<lparr>ttype = COMMENT_BLOCK_END, tvalue = ''*/'',
                                trange = makeRange lineNum endIdx (endIdx + 2),
                                tdata = None\<rparr>
                     (st\<lparr>inBlockComment := False, blockCommentStart := None\<rparr>);
             restOfLine = substringFrom ln (nat (endIdx + 2));
             st2 = (if trim restOfLine \<noteq> []
                    then tokenizeLineContent lineNum (endIdx + 2) restOfLine st1 else st1)
         in pushLineType LT_COMMENT st2)
      else pushLineType LT_IN_BLOCK_COMMENT st)"

text \<open>"Check for block comment start", when the comment does not close on the same line.\<close>

definition lexBlockCommentStart :: "string \<Rightarrow> int \<Rightarrow> LexerState \<Rightarrow> LexerState" where
  "lexBlockCommentStart ln lineNum st =
     (let blockStart = indexOf ln ''/*'' in
      pushLineType LT_COMMENT
        (pushToken \<lparr>ttype = COMMENT_BLOCK_START, tvalue = ''/*'',
                      trange = makeRange lineNum blockStart (blockStart + 2),
                      tdata = None\<rparr>
           (st\<lparr>inBlockComment := True,
                blockCommentStart := Some \<lparr>line = lineNum, character = blockStart\<rparr>\<rparr>)))"

text \<open>"Line comment".\<close>

definition lexLineComment :: "string \<Rightarrow> int \<Rightarrow> LexerState \<Rightarrow> LexerState" where
  "lexLineComment ln lineNum st =
     pushLineType LT_COMMENT
       (pushToken \<lparr>ttype = COMMENT_LINE, tvalue = trim ln,
                     trange = makeRange lineNum (indexOf ln ''//'') (int (length ln)),
                     tdata = None\<rparr> st)"

text \<open>"Comment lines starting with ==== (4+ equals)".\<close>

definition lexDivider :: "string \<Rightarrow> int \<Rightarrow> LexerState \<Rightarrow> LexerState" where
  "lexDivider ln lineNum st =
     pushLineType LT_COMMENT
       (pushToken \<lparr>ttype = COMMENT_LINE, tvalue = trim ln,
                     trange = makeRange lineNum 0 (int (length ln)),
                     tdata = None\<rparr> st)"

text \<open>"Story header": \<open>m0\<close> is \<open>storyMatch[0]\<close> and \<open>sid\<close> is \<open>storyMatch[1]\<close>.\<close>

definition lexStoryHeader :: "string \<Rightarrow> string \<Rightarrow> string \<Rightarrow> int \<Rightarrow> LexerState \<Rightarrow> LexerState" where
  "lexStoryHeader m0 sid ln lineNum st =
     pushLineType LT_STORY_HEADER
       (pushToken \<lparr>ttype = STORY_HEADER, tvalue = m0,
                     trange = makeRange lineNum (indexOf ln ''==='') (int (length ln)),
                     tdata = Some (noData\<lparr>storyId := Some sid\<rparr>)\<rparr> st)"

text \<open>"Invalid story header (=== without valid ID)".\<close>

definition lexInvalidStoryHeader :: "string \<Rightarrow> int \<Rightarrow> LexerState \<Rightarrow> LexerState" where
  "lexInvalidStoryHeader ln lineNum st =
     (let startIdx = indexOf ln ''==='' in
      pushLineType LT_STORY_HEADER
        (pushError \<lparr>message = ''Invalid story header. Expected: === storyID'',
                      erange = makeRange lineNum startIdx (int (length ln)),
                      severity = SevError, code = ''invalid-story-header''\<rparr>
           (pushToken \<lparr>ttype = ERROR, tvalue = trim ln,
                         trange = makeRange lineNum startIdx (int (length ln)),
                         tdata = None\<rparr> st)))"

text \<open>"Tilde commands": \<open>w\<close> is \<open>tildeMatch[1]\<close> and \<open>rest\<close> is \<open>tildeMatch[2] || ''\<close>.\<close>

definition lexTildeCommand :: "string \<Rightarrow> string \<Rightarrow> string \<Rightarrow> int \<Rightarrow> LexerState \<Rightarrow> LexerState" where
  "lexTildeCommand w rest ln lineNum st =
     (let cmd = toLowerCase w;
          startIdx = indexOf ln ''~'' in
      if cmd \<in> set TILDE_COMMANDS then
        (let st1 = pushLineType LT_TILDE_COMMAND
                     (pushToken \<lparr>ttype = getTildeTokenType cmd, tvalue = trim ln,
                                   trange = makeRange lineNum startIdx (int (length ln)),
                                   tdata = Some (noData\<lparr>condition := Some rest\<rparr>)\<rparr> st)
         in st1\<lparr>errors := validateTildeCommand cmd rest lineNum startIdx (errors st1)\<rparr>)
      else
        pushLineType LT_TILDE_COMMAND
          (pushError
             \<lparr>message = ''Unknown tilde command: ~'' @ cmd @ ''. Valid commands: ''
                          @ ''if, ifd, set, setif, call, callif, disabled, once'',
                erange = makeRange lineNum startIdx (startIdx + int (length cmd) + 1),
                severity = SevError, code = ''unknown-tilde-command''\<rparr>
             (pushToken \<lparr>ttype = ERROR, tvalue = trim ln,
                           trange = makeRange lineNum startIdx (int (length ln)),
                           tdata = None\<rparr> st)))"

text \<open>"Jump": the three groups of \<open>jumpMatch\<close>.\<close>

definition lexJump :: "string \<Rightarrow> string \<Rightarrow> string \<Rightarrow> string \<Rightarrow> int \<Rightarrow> LexerState \<Rightarrow> LexerState" where
  "lexJump arrows bang rest ln lineNum st =
     (let tgt = trim rest;
          jt = (if arrows = ''>>'' then silent
                else if arrows = ''>>>'' \<or> bang = ''!'' then nobreak
                else normal) in
      pushLineType LT_JUMP
        (pushToken \<lparr>ttype = JUMP, tvalue = trim ln,
                      trange = makeRange lineNum (indexOf ln ''>'') (int (length ln)),
                      tdata = Some (noData\<lparr>jumpType := Some jt,
                                      targetId := (if tgt = [] then None else Some tgt)\<rparr>)\<rparr>
           st))"

text \<open>"Choice ID alone": \<open>w\<close> is \<open>choiceIdMatch[1]\<close>.\<close>

definition lexChoiceId :: "string \<Rightarrow> string \<Rightarrow> int \<Rightarrow> LexerState \<Rightarrow> LexerState" where
  "lexChoiceId w ln lineNum st =
     pushLineType LT_CHOICE_ID
       (pushToken \<lparr>ttype = CHOICE_ID, tvalue = trim ln,
                     trange = makeRange lineNum (indexOf ln ''='') (int (length ln)),
                     tdata = Some (noData\<lparr>choiceId := Some w, isHidden := Some False\<rparr>)\<rparr> st)"

text \<open>"Choice with optional ID": the three groups of \<open>choiceMatch\<close>.\<close>

definition lexChoice :: "string \<Rightarrow> string \<Rightarrow> string \<Rightarrow> string \<Rightarrow> int \<Rightarrow> LexerState \<Rightarrow> LexerState" where
  "lexChoice stars eq rest0 ln lineNum st =
     (let hasId = (eq = ''='');
          rest = trim rest0;
          startIdx = indexOf ln ''*'';
          st1 =
            (if hasId then
               (case idMatch rest of
                  Some w \<Rightarrow>
                    pushToken \<lparr>ttype = CHOICE_ID, tvalue = trim ln,
                                 trange = makeRange lineNum startIdx (int (length ln)),
                                 tdata = Some (noData\<lparr>choiceId := Some w,
                                                 isHidden := Some True,
                                                 choiceLevel := Some (length stars)\<rparr>)\<rparr> st
                | None \<Rightarrow>
                    if rest = [] then
                      pushError \<lparr>message = ''Hidden choice marker *= requires an ID'',
                                   erange = makeRange lineNum startIdx (int (length ln)),
                                   severity = SevError, code = ''missing-choice-id''\<rparr> st
                    else
                      pushToken \<lparr>ttype = CHOICE_ID, tvalue = trim ln,
                                   trange = makeRange lineNum startIdx (int (length ln)),
                                   tdata = Some (noData\<lparr>choiceId := Some (firstWord rest),
                                                   isHidden := Some True,
                                                   choiceLevel := Some (length stars)\<rparr>)\<rparr> st)
             else
               pushToken \<lparr>ttype = CHOICE, tvalue = trim ln,
                            trange = makeRange lineNum startIdx (int (length ln)),
                            tdata = Some (noData\<lparr>choiceLevel := Some (length stars)\<rparr>)\<rparr> st)
      in pushLineType LT_CHOICE st1)"

text \<open>"Page break".\<close>

definition lexPageBreak :: "string \<Rightarrow> int \<Rightarrow> LexerState \<Rightarrow> LexerState" where
  "lexPageBreak ln lineNum st =
     (let startIdx = indexOf ln ''-'' in
      pushLineType LT_PAGE_BREAK
        (pushToken \<lparr>ttype = PAGE_BREAK, tvalue = ''-'',
                      trange = makeRange lineNum startIdx (startIdx + 1),
                      tdata = None\<rparr> st))"

text \<open>
  "Regular text". The source also calls \<open>validateBracketExpressions\<close> here, which reads the
  line and changes nothing: it has no counterpart.
\<close>

definition lexText :: "string \<Rightarrow> int \<Rightarrow> LexerState \<Rightarrow> LexerState" where
  "lexText ln lineNum st =
     pushLineType LT_TEXT
       (pushToken \<lparr>ttype = TEXT, tvalue = ln,
                     trange = makeRange lineNum 0 (int (length ln)),
                     tdata = None\<rparr> st)"

text \<open>The condition of the branch "block comment start": a \<open>/*\<close> with no \<open>*/\<close> after it.\<close>

definition opensBlockComment :: "string \<Rightarrow> bool" where
  "opensBlockComment ln =
     (indexOf ln ''/*'' \<noteq> - 1 \<and> indexOfFrom ln ''*/'' (nat (indexOf ln ''/*'' + 2)) = - 1)"

definition tokenizeLine :: "string \<Rightarrow> int \<Rightarrow> LexerState \<Rightarrow> LexerState" where
  "tokenizeLine ln lineNum st =
     (let trimmed = trim ln in
      if inBlockComment st then lexBlockCommentContinuation ln lineNum st
      else if trimmed = [] then pushLineType LT_EMPTY st
      else if opensBlockComment ln then lexBlockCommentStart ln lineNum st
      else if startsWith trimmed ''//'' then lexLineComment ln lineNum st
      else if startsWith trimmed ''===='' then lexDivider ln lineNum st
      else if storyMatch trimmed \<noteq> None then
        (case the (storyMatch trimmed) of (m0, sid) \<Rightarrow> lexStoryHeader m0 sid ln lineNum st)
      else if startsWith trimmed ''==='' \<and> \<not> startsWith trimmed ''===='' then
        lexInvalidStoryHeader ln lineNum st
      else if tildeMatch trimmed \<noteq> None then
        (case the (tildeMatch trimmed) of (w, rest) \<Rightarrow> lexTildeCommand w rest ln lineNum st)
      else if jumpMatch trimmed \<noteq> None then
        (case the (jumpMatch trimmed) of
           (arrows, bang, rest) \<Rightarrow> lexJump arrows bang rest ln lineNum st)
      else if choiceIdMatch trimmed \<noteq> None \<and> \<not> startsWith trimmed ''=='' then
        lexChoiceId (the (choiceIdMatch trimmed)) ln lineNum st
      else if choiceMatch trimmed \<noteq> None then
        (case the (choiceMatch trimmed) of
           (stars, eq, rest0) \<Rightarrow> lexChoice stars eq rest0 ln lineNum st)
      else if pageBreakMatch trimmed then lexPageBreak ln lineNum st
      else lexText ln lineNum st)"

fun tokenizeLines :: "string list \<Rightarrow> int \<Rightarrow> LexerState \<Rightarrow> LexerState" where
  "tokenizeLines [] lineNum st = st"
| "tokenizeLines (l # ls) lineNum st = tokenizeLines ls (lineNum + 1) (tokenizeLine l lineNum st)"

definition initialLexerState :: LexerState where
  "initialLexerState = \<lparr>tokens = [], errors = [], lineTypes = [], inBlockComment = False,
                          blockCommentStart = None\<rparr>"

text \<open>\<open>tokenize\<close>: all lines, then the check for an unclosed block comment, then the EOF
  token. \<open>splitLines\<close> never answers the empty list, so \<open>last\<close> is the last line.\<close>

definition tokenize :: "string \<Rightarrow> LexerState" where
  "tokenize text =
     (let lines = splitLines text;
          st = tokenizeLines lines 0 initialLexerState;
          lastLine = int (length lines) - 1;
          lastChar = int (length (last lines));
          st1 = (case (inBlockComment st, blockCommentStart st) of
                   (True, Some p) \<Rightarrow>
                     pushError \<lparr>message = ''Unclosed block comment'',
                                  erange = \<lparr>rstart = p,
                                             rend = \<lparr>line = lastLine, character = lastChar\<rparr>\<rparr>,
                                  severity = SevError, code = ''unclosed-comment''\<rparr> st
                 | _ \<Rightarrow> st)
      in pushToken \<lparr>ttype = EOF, tvalue = [],
                      trange = \<lparr>rstart = \<lparr>line = lastLine, character = lastChar\<rparr>,
                                 rend = \<lparr>line = lastLine, character = lastChar\<rparr>\<rparr>,
                      tdata = None\<rparr> st1)"

subsection \<open>Vocabulary for the properties of the lexer\<close>

text \<open>The conditions of the branches of \<open>tokenizeLine\<close> that come before "regular text".\<close>

definition higherPriorityMatch :: "string \<Rightarrow> bool" where
  "higherPriorityMatch ln =
     (let trimmed = trim ln
      in trimmed = [] \<or> opensBlockComment ln \<or> startsWith trimmed ''//''
         \<or> startsWith trimmed ''===='' \<or> storyMatch trimmed \<noteq> None
         \<or> (startsWith trimmed ''==='' \<and> \<not> startsWith trimmed ''===='')
         \<or> tildeMatch trimmed \<noteq> None \<or> jumpMatch trimmed \<noteq> None
         \<or> (choiceIdMatch trimmed \<noteq> None \<and> \<not> startsWith trimmed ''=='')
         \<or> choiceMatch trimmed \<noteq> None \<or> pageBreakMatch trimmed)"

definition isEOF :: "Token \<Rightarrow> bool" where
  "isEOF t = (ttype t = EOF)"

text \<open>The severity the lexer gives an error, by the code of the error.\<close>

definition severityRule :: "ParseError \<Rightarrow> bool" where
  "severityRule e =
     ((code e = ''empty-tilde-expression'' \<longrightarrow> severity e = SevWarning) \<and>
      (code e \<noteq> ''empty-tilde-expression'' \<longrightarrow> severity e = SevError))"

section \<open>Parser: the syntax tree\<close>

record TildeCommandNode =
  command :: string
  expression :: string
  tcrange :: Range

record ChoiceIdNode =
  ciId :: string
  ciRange :: Range
  ciIsHidden :: bool

record JumpNode =
  target :: string
  jrange :: Range
  jumpKind :: JumpType

text \<open>A choice owns its children, so a story's choices are a forest.\<close>

datatype ChoiceNode =
  ChoiceNode (level: nat) (ctext: string) (crange: Range) (cid: "ChoiceIdNode option")
    (requirements: "TildeCommandNode list") (mutations: "TildeCommandNode list")
    (jumps: "JumpNode list") (children: "ChoiceNode list") (pageBreaks: "Range list")

text \<open>
  \<open>Map<string, ChoiceIdNode>\<close> as an association list in insertion order; \<open>mapSet\<close> replaces
  the value of a key that is present and appends a new key at the end, as \<open>Map.prototype.set\<close>
  does.
\<close>

type_synonym ChoiceIdMap = "(string \<times> ChoiceIdNode) list"

definition mapHas :: "ChoiceIdMap \<Rightarrow> string \<Rightarrow> bool" where
  "mapHas m k = (k \<in> set (map fst m))"

definition mapGet :: "ChoiceIdMap \<Rightarrow> string \<Rightarrow> ChoiceIdNode option" where
  "mapGet m k = map_of m k"

fun mapSet :: "string \<Rightarrow> ChoiceIdNode \<Rightarrow> ChoiceIdMap \<Rightarrow> ChoiceIdMap" where
  "mapSet k v [] = [(k, v)]"
| "mapSet k v (p # ps) = (if fst p = k then (k, v) # ps else p # mapSet k v ps)"

record StoryNode =
  sid :: string
  srange :: Range
  headerRange :: Range
  srequirements :: "TildeCommandNode list"
  smutations :: "TildeCommandNode list"
  choices :: "ChoiceNode list"
  choiceIds :: ChoiceIdMap

subsection \<open>References into the forest\<close>

text \<open>
  \<open>currentChoice\<close> and the entries of \<open>choiceStack\<close> are references to nodes that are in the
  forest already, and the parser changes a node through them. A reference is modelled as
  the path of the node: the index of its root in \<open>story.choices\<close>, then the index of each
  child on the way down. Nodes are only ever appended, so a path keeps naming the same node.
  A path that names no node leaves the forest as it is.
\<close>

type_synonym NodeRef = "nat list"

fun nodeAt :: "NodeRef \<Rightarrow> ChoiceNode list \<Rightarrow> ChoiceNode option" where
  "nodeAt [] cs = None"
| "nodeAt [i] cs = (if i < length cs then Some (cs ! i) else None)"
| "nodeAt (i # p) cs = (if i < length cs then nodeAt p (children (cs ! i)) else None)"

fun setChildren :: "ChoiceNode list \<Rightarrow> ChoiceNode \<Rightarrow> ChoiceNode" where
  "setChildren ch' (ChoiceNode l t r i rq mu js ch pb) = ChoiceNode l t r i rq mu js ch' pb"

fun updateAt :: "NodeRef \<Rightarrow> (ChoiceNode \<Rightarrow> ChoiceNode) \<Rightarrow> ChoiceNode list \<Rightarrow> ChoiceNode list" where
  "updateAt [] f cs = cs"
| "updateAt [i] f cs = (if i < length cs then cs[i := f (cs ! i)] else cs)"
| "updateAt (i # p) f cs =
     (if i < length cs
      then cs[i := setChildren (updateAt p f (children (cs ! i))) (cs ! i)]
      else cs)"

text \<open>The mutations the parser performs on a node.\<close>

fun pushRequirement :: "TildeCommandNode \<Rightarrow> ChoiceNode \<Rightarrow> ChoiceNode" where
  "pushRequirement n (ChoiceNode l t r i rq mu js ch pb) = ChoiceNode l t r i (rq @ [n]) mu js ch pb"

fun pushMutation :: "TildeCommandNode \<Rightarrow> ChoiceNode \<Rightarrow> ChoiceNode" where
  "pushMutation n (ChoiceNode l t r i rq mu js ch pb) = ChoiceNode l t r i rq (mu @ [n]) js ch pb"

fun pushJump :: "JumpNode \<Rightarrow> ChoiceNode \<Rightarrow> ChoiceNode" where
  "pushJump n (ChoiceNode l t r i rq mu js ch pb) = ChoiceNode l t r i rq mu (js @ [n]) ch pb"

fun pushChild :: "ChoiceNode \<Rightarrow> ChoiceNode \<Rightarrow> ChoiceNode" where
  "pushChild n (ChoiceNode l t r i rq mu js ch pb) = ChoiceNode l t r i rq mu js (ch @ [n]) pb"

fun pushPageBreak :: "Range \<Rightarrow> ChoiceNode \<Rightarrow> ChoiceNode" where
  "pushPageBreak n (ChoiceNode l t r i rq mu js ch pb) = ChoiceNode l t r i rq mu js ch (pb @ [n])"

fun setId :: "ChoiceIdNode \<Rightarrow> ChoiceNode \<Rightarrow> ChoiceNode" where
  "setId n (ChoiceNode l t r i rq mu js ch pb) = ChoiceNode l t r (Some n) rq mu js ch pb"

subsection \<open>Token to node\<close>

text \<open>The reads \<open>token.data?.x || dflt\<close>: the default stands in for an absent property and
  for a falsy one (\<open>0\<close>, the empty string, \<open>false\<close>).\<close>

definition tokChoiceLevel :: "Token \<Rightarrow> nat" where
  "tokChoiceLevel t =
     (case tdata t of None \<Rightarrow> 1
      | Some d \<Rightarrow> (case choiceLevel d of None \<Rightarrow> 1 | Some n \<Rightarrow> if n = 0 then 1 else n))"

definition tokChoiceId :: "Token \<Rightarrow> string" where
  "tokChoiceId t =
     (case tdata t of None \<Rightarrow> ''unknown''
      | Some d \<Rightarrow> (case choiceId d of None \<Rightarrow> ''unknown''
                   | Some s \<Rightarrow> if s = [] then ''unknown'' else s))"

definition tokStoryId :: "Token \<Rightarrow> string" where
  "tokStoryId t =
     (case tdata t of None \<Rightarrow> ''unknown''
      | Some d \<Rightarrow> (case storyId d of None \<Rightarrow> ''unknown''
                   | Some s \<Rightarrow> if s = [] then ''unknown'' else s))"

definition tokIsHidden :: "Token \<Rightarrow> bool" where
  "tokIsHidden t =
     (case tdata t of None \<Rightarrow> False
      | Some d \<Rightarrow> (case isHidden d of None \<Rightarrow> False | Some b \<Rightarrow> b))"

definition tokTargetId :: "Token \<Rightarrow> string" where
  "tokTargetId t =
     (case tdata t of None \<Rightarrow> []
      | Some d \<Rightarrow> (case targetId d of None \<Rightarrow> [] | Some s \<Rightarrow> s))"

definition tokJumpType :: "Token \<Rightarrow> JumpType" where
  "tokJumpType t =
     (case tdata t of None \<Rightarrow> normal
      | Some d \<Rightarrow> (case jumpType d of None \<Rightarrow> normal | Some j \<Rightarrow> j))"

definition parseTildeCommand :: "Token \<Rightarrow> TildeCommandNode" where
  "parseTildeCommand token =
     (case tildeMatch (tvalue token) of
        None \<Rightarrow> \<lparr>command = ''unknown'', expression = [], tcrange = trange token\<rparr>
      | Some (w, rest) \<Rightarrow>
          \<lparr>command = toLowerCase w, expression = rest, tcrange = trange token\<rparr>)"

text \<open>\<open>/^\*+\s*(.*)$/\<close>: the text after the stars.\<close>

definition choiceTextMatch :: "string \<Rightarrow> string option" where
  "choiceTextMatch t =
     (let stars = takeWhile (\<lambda>c. c = CHR ''*'') t;
          rest = dropWhile isWhitespace (drop (length stars) t)
      in if stars \<noteq> [] \<and> \<not> list_ex isLineTerminator rest then Some rest else None)"

definition parseChoice :: "Token \<Rightarrow> ChoiceNode" where
  "parseChoice token =
     ChoiceNode (tokChoiceLevel token)
       (case choiceTextMatch (tvalue token) of None \<Rightarrow> [] | Some s \<Rightarrow> s)
       (trange token) None [] [] [] [] []"

definition parseChoiceId :: "Token \<Rightarrow> ChoiceIdNode" where
  "parseChoiceId token =
     \<lparr>ciId = tokChoiceId token, ciRange = trange token, ciIsHidden = tokIsHidden token\<rparr>"

definition parseJump :: "Token \<Rightarrow> JumpNode" where
  "parseJump token =
     \<lparr>target = tokTargetId token, jrange = trange token, jumpKind = tokJumpType token\<rparr>"

subsection \<open>\<open>parseStory\<close>\<close>

text \<open>The variables of \<open>parseStory\<close> that its loop changes, with the parser's error list.\<close>

record StoryState =
  story :: StoryNode
  currentChoice :: "NodeRef option"
  choiceStack :: "NodeRef list"
  perrors :: "ParseError list"

definition updChoices :: "(ChoiceNode list \<Rightarrow> ChoiceNode list) \<Rightarrow> StoryState \<Rightarrow> StoryState" where
  "updChoices f st = st\<lparr>story := (story st)\<lparr>choices := f (choices (story st))\<rparr>\<rparr>"

text \<open>\<open>story.choices.push(node)\<close>, answering the reference to the new root as well.\<close>

definition pushRoot :: "ChoiceNode \<Rightarrow> StoryState \<Rightarrow> StoryState \<times> NodeRef" where
  "pushRoot node st = (updChoices (\<lambda>cs. cs @ [node]) st, [length (choices (story st))])"

text \<open>\<open>parent.children.push(node)\<close>, answering the reference to the new child as well.\<close>

definition pushChildAt :: "NodeRef \<Rightarrow> ChoiceNode \<Rightarrow> StoryState \<Rightarrow> StoryState \<times> NodeRef" where
  "pushChildAt parent node st =
     (updChoices (updateAt parent (pushChild node)) st,
      parent @ [case nodeAt parent (choices (story st)) of
                  None \<Rightarrow> 0
                | Some p \<Rightarrow> length (children p)])"

text \<open>The case \<open>TokenType.CHOICE\<close> of the switch.\<close>

definition stepChoice :: "Token \<Rightarrow> StoryState \<Rightarrow> StoryState" where
  "stepChoice token st =
     (let choiceNode = parseChoice token;
          lvl = tokChoiceLevel token
      in if lvl = 1 then
           (let (st1, r) = pushRoot choiceNode st
            in st1\<lparr>choiceStack := [r], currentChoice := Some r\<rparr>)
         else
           (let stack1 = take (lvl - 1) (choiceStack st)
            in if stack1 \<noteq> [] then
                 (let (st1, r) = pushChildAt (last stack1) choiceNode st
                  in st1\<lparr>choiceStack := stack1 @ [r], currentChoice := Some r\<rparr>)
               else
                 (let st0 = st\<lparr>perrors := perrors st @
                              [\<lparr>message = ''Choice level '' @ showNat lvl @ '' has no parent choice'',
                                 erange = trange token,
                                 severity = SevError, code = ''orphaned-choice''\<rparr>]\<rparr>;
                      (st1, r) = pushRoot choiceNode st0
                  in st1\<lparr>choiceStack := stack1 @ [r], currentChoice := Some r\<rparr>)))"

text \<open>The case \<open>TokenType.CHOICE_ID\<close> of the switch.\<close>

definition stepChoiceId :: "Token \<Rightarrow> StoryState \<Rightarrow> StoryState" where
  "stepChoiceId token st =
     (let choiceIdNode = parseChoiceId token;
          st1 = (if mapHas (choiceIds (story st)) (ciId choiceIdNode)
                 then st\<lparr>perrors := perrors st @
                          [\<lparr>message = ''Duplicate choice ID: '' @ ciId choiceIdNode,
                             erange = trange token,
                             severity = SevError, code = ''duplicate-choice-id''\<rparr>]\<rparr>
                 else st\<lparr>story := (story st)\<lparr>choiceIds :=
                          mapSet (ciId choiceIdNode) choiceIdNode (choiceIds (story st))\<rparr>\<rparr>)
      in if ciIsHidden choiceIdNode then
           (let hiddenChoice = ChoiceNode (tokChoiceLevel token) [] (trange token)
                                 (Some choiceIdNode) [] [] [] [] [];
                (st2, r) = pushRoot hiddenChoice st1
            in st2\<lparr>choiceStack := [r], currentChoice := Some r\<rparr>)
         else (case currentChoice st1 of
                 Some r \<Rightarrow> updChoices (updateAt r (setId choiceIdNode)) st1
               | None \<Rightarrow> st1))"

text \<open>The body of the loop of \<open>parseStory\<close>: the switch on the type of the token.\<close>

definition storyStep :: "Token \<Rightarrow> StoryState \<Rightarrow> StoryState" where
  "storyStep token st =
     (if ttype token = TILDE_IF \<or> ttype token = TILDE_IFD then
        (let reqNode = parseTildeCommand token
         in case currentChoice st of
              Some r \<Rightarrow> updChoices (updateAt r (pushRequirement reqNode)) st
            | None \<Rightarrow> st\<lparr>story := (story st)\<lparr>srequirements :=
                         srequirements (story st) @ [reqNode]\<rparr>\<rparr>)
      else if ttype token = TILDE_SET \<or> ttype token = TILDE_SETIF \<or> ttype token = TILDE_CALL
              \<or> ttype token = TILDE_CALLIF \<or> ttype token = TILDE_ONCE then
        (let mutNode = parseTildeCommand token
         in case currentChoice st of
              Some r \<Rightarrow> updChoices (updateAt r (pushMutation mutNode)) st
            | None \<Rightarrow> st\<lparr>story := (story st)\<lparr>smutations :=
                         smutations (story st) @ [mutNode]\<rparr>\<rparr>)
      else if ttype token = TILDE_DISABLED then st
      else if ttype token = CHOICE then stepChoice token st
      else if ttype token = CHOICE_ID then stepChoiceId token st
      else if ttype token = JUMP then
        (let jumpNode = parseJump token
         in case currentChoice st of
              Some r \<Rightarrow> updChoices (updateAt r (pushJump jumpNode)) st
            | None \<Rightarrow> st\<lparr>perrors := perrors st @
                         [\<lparr>message = ''Jump found outside of a choice'',
                            erange = trange token,
                            severity = SevWarning, code = ''orphaned-jump''\<rparr>]\<rparr>)
      else if ttype token = PAGE_BREAK then
        (case currentChoice st of
           Some r \<Rightarrow> updChoices (updateAt r (pushPageBreak (trange token))) st
         | None \<Rightarrow> st)
      else st)"

text \<open>
  The loop of \<open>parseStory\<close>, on the tokens from \<open>this.current\<close> on. It stops at the end of the
  tokens, at the EOF token and at the next story header; every other token is consumed by
  one step. It answers the tokens left and the last token consumed.
\<close>

fun storyLoop :: "Token list \<Rightarrow> Token \<Rightarrow> StoryState \<Rightarrow> Token list \<times> Token \<times> StoryState" where
  "storyLoop [] prev st = ([], prev, st)"
| "storyLoop (t # ts) prev st =
     (if ttype t = EOF \<or> ttype t = STORY_HEADER then (t # ts, prev, st)
      else storyLoop ts t (storyStep t st))"

text \<open>The story as \<open>parseStory\<close> creates it, with the entry \<open>start\<close> of its identifier map.\<close>

definition newStory :: "Token \<Rightarrow> StoryNode" where
  "newStory headerToken =
     \<lparr>sid = tokStoryId headerToken,
      srange = trange headerToken,
      headerRange = trange headerToken,
      srequirements = [], smutations = [], choices = [],
      choiceIds = mapSet ''start''
                    \<lparr>ciId = ''start'', ciRange = trange headerToken, ciIsHidden = True\<rparr> []\<rparr>"

definition initialStoryState :: "Token \<Rightarrow> ParseError list \<Rightarrow> StoryState" where
  "initialStoryState headerToken errs =
     \<lparr>story = newStory headerToken, currentChoice = None, choiceStack = [], perrors = errs\<rparr>"

text \<open>\<open>parseStory\<close>, called on a story header with the tokens after it: the tokens left, the
  finished story and the errors.\<close>

definition parseStory ::
  "Token \<Rightarrow> Token list \<Rightarrow> ParseError list \<Rightarrow> Token list \<times> StoryNode \<times> ParseError list" where
  "parseStory headerToken ts errs =
     (let (rest, lastToken, st) = storyLoop ts headerToken (initialStoryState headerToken errs)
      in (rest,
          (story st)\<lparr>srange := \<lparr>rstart = rstart (trange headerToken),
                                 rend = rend (trange lastToken)\<rparr>\<rparr>,
          perrors st))"

subsection \<open>Vocabulary for the properties of \<open>parseStory\<close>\<close>

text \<open>
  The two error objects of the switch, the entry \<open>start\<close> of a new story, and the tokens that
  the loop of \<open>parseStory\<close> consumes.
\<close>

definition duplicateIdError :: "Token \<Rightarrow> ParseError" where
  "duplicateIdError tok =
     \<lparr>message = ''Duplicate choice ID: '' @ tokChoiceId tok, erange = trange tok,
      severity = SevError, code = ''duplicate-choice-id''\<rparr>"

definition startEntry :: "Token \<Rightarrow> ChoiceIdNode" where
  "startEntry headerToken = \<lparr>ciId = ''start'', ciRange = trange headerToken, ciIsHidden = True\<rparr>"

definition isStoryToken :: "Token \<Rightarrow> bool" where
  "isStoryToken t = (ttype t \<noteq> EOF \<and> ttype t \<noteq> STORY_HEADER)"



definition keepsChildren :: "(ChoiceNode \<Rightarrow> ChoiceNode) \<Rightarrow> bool" where
  "keepsChildren f = (\<forall>n. \<exists>ext. children (f n) = children n @ ext)"


text \<open>The choices of a tree, the root first, and all the choices of a story.\<close>

fun allChoices :: "ChoiceNode \<Rightarrow> ChoiceNode list" where
  "allChoices (ChoiceNode l t r i rq mu js ch pb) =
     ChoiceNode l t r i rq mu js ch pb # concat (map allChoices ch)"

definition storyChoices :: "StoryNode \<Rightarrow> ChoiceNode list" where
  "storyChoices st = concat (map allChoices (choices st))"

subsection \<open>Jump targets\<close>

definition isSpecialJumpTarget :: "string \<Rightarrow> bool" where
  "isSpecialJumpTarget tgt =
     (toLowerCase tgt \<in> set [''start'', ''end'', ''back'', ''backonce'', ''startonce''])"

text \<open>
  \<open>/^if\s+.+\s+\?\s+(\w+)\s*:\s*(\w+)$/\<close>. Read from the end, the match is forced: the
  second identifier is the word at the end, before it blanks and the colon, before the
  colon blanks and the first identifier, and before that at least one blank and the
  question mark. What is left in front of the question mark has to be \<open>if\<close>, then blanks,
  then characters other than line terminators, then blanks, each at least one.
\<close>

definition condPrefixMatch :: "string \<Rightarrow> bool" where
  "condPrefixMatch p =
     (startsWith p ''if'' \<and>
      (let r = drop 2 p; n = length r
       in list_ex (\<lambda>a. list_ex (\<lambda>b. a + b < n
                                    \<and> list_all isWhitespace (take a r)
                                    \<and> list_all isWhitespace (drop (n - b) r)
                                    \<and> \<not> list_ex isLineTerminator (take (n - b - a) (drop a r)))
                            [1..<n])
                  [1..<n]))"

definition conditionalMatch :: "string \<Rightarrow> (string \<times> string) option" where
  "conditionalMatch tgt =
     (let r = rev tgt;
          w2 = takeWhile isWordChar r;
          r1 = dropWhile isWhitespace (dropWhile isWordChar r)
      in if w2 = [] \<or> r1 = [] \<or> hd r1 \<noteq> CHR '':'' then None
         else (let r2 = dropWhile isWhitespace (tl r1);
                   w1 = takeWhile isWordChar r2;
                   r3 = dropWhile isWordChar r2;
                   r4 = dropWhile isWhitespace r3
               in if w1 = [] \<or> r3 = [] \<or> \<not> isWhitespace (hd r3) \<or> r4 = []
                     \<or> hd r4 \<noteq> CHR ''?'' \<or> \<not> condPrefixMatch (rev (tl r4))
                  then None
                  else Some (rev w1, rev w2)))"

text \<open>The check of one identifier, in the three places where \<open>validateChoice\<close> makes it.\<close>

definition checkTarget :: "StoryNode \<Rightarrow> JumpNode \<Rightarrow> string \<Rightarrow> ParseError list \<Rightarrow> ParseError list" where
  "checkTarget st jump tgt errs =
     (if \<not> mapHas (choiceIds st) tgt \<and> \<not> isSpecialJumpTarget tgt
      then errs @ [\<lparr>message = ''Unknown jump target: '' @ tgt,
                      erange = jrange jump,
                      severity = SevWarning, code = ''unknown-jump-target''\<rparr>]
      else errs)"

text \<open>The body of the loop over \<open>choice.jumps\<close>.\<close>

definition validateJump :: "StoryNode \<Rightarrow> JumpNode \<Rightarrow> ParseError list \<Rightarrow> ParseError list" where
  "validateJump st jump errs =
     (if target jump \<noteq> [] then
        (case conditionalMatch (target jump) of
           Some (target1, target2) \<Rightarrow>
             checkTarget st jump target2 (checkTarget st jump target1 errs)
         | None \<Rightarrow> checkTarget st jump (firstWord (target jump)) errs)
      else errs)"

fun validateChoice :: "StoryNode \<Rightarrow> ChoiceNode \<Rightarrow> ParseError list \<Rightarrow> ParseError list" where
  "validateChoice st (ChoiceNode l t r i rq mu js ch pb) errs =
     fold (validateChoice st) ch (fold (validateJump st) js errs)"

definition validateJumpsInStory :: "StoryNode \<Rightarrow> ParseError list \<Rightarrow> ParseError list" where
  "validateJumpsInStory st errs = fold (validateChoice st) (choices st) errs"

definition validateJumpTargets :: "StoryNode list \<Rightarrow> ParseError list \<Rightarrow> ParseError list" where
  "validateJumpTargets sts errs = fold validateJumpsInStory sts errs"





subsection \<open>\<open>parse\<close>\<close>

record ParserState =
  stories :: "StoryNode list"
  isDisabled :: bool
  parseErrors :: "ParseError list"

text \<open>\<open>checkDisabled\<close>: the loop over the first ten tokens.\<close>

fun checkDisabledLoop :: "Token list \<Rightarrow> bool" where
  "checkDisabledLoop [] = False"
| "checkDisabledLoop (t # ts) =
     (if ttype t = STORY_HEADER then False
      else if ttype t = TILDE_DISABLED then True
      else checkDisabledLoop ts)"

definition checkDisabled :: "Token list \<Rightarrow> bool" where
  "checkDisabled ts = checkDisabledLoop (take 10 ts)"

text \<open>
  The loop of \<open>parse\<close>, on the tokens from \<open>this.current\<close> on; \<open>cur\<close> is \<open>this.current\<close>. The
  loop ends when no token is left or the next one is EOF.
\<close>

function parseLoop :: "Token list \<Rightarrow> nat \<Rightarrow> ParserState \<Rightarrow> ParserState" where
  "parseLoop [] cur ps = ps"
| "parseLoop (t # ts) cur ps =
     (if ttype t = EOF then ps
      else if ttype t = STORY_HEADER then
        (let res = parseStory t ts (parseErrors ps);
             rest = fst res
         in parseLoop rest (cur + (length (t # ts) - length rest))
              (ps\<lparr>stories := stories ps @ [fst (snd res)], parseErrors := snd (snd res)\<rparr>))
      else if ttype t = TILDE_DISABLED then
        parseLoop ts (cur + 1)
          (if cur > 0
           then ps\<lparr>parseErrors := parseErrors ps @
                  [\<lparr>message = ''~disabled should be on the first line of the file'',
                     erange = trange t,
                     severity = SevWarning, code = ''misplaced-disabled''\<rparr>]\<rparr>
           else ps)
      else if ttype t = TEXT then
        parseLoop ts (cur + 1)
          (if stories ps = [] \<and> \<not> isDisabled ps \<and> trim (tvalue t) \<noteq> []
           then ps\<lparr>parseErrors := parseErrors ps @
                  [\<lparr>message = ''Content found before story header. Expected: === storyID'',
                     erange = trange t,
                     severity = SevWarning, code = ''content-before-story''\<rparr>]\<rparr>
           else ps)
      else parseLoop ts (cur + 1) ps)"
  by pat_completeness auto
termination
proof (relation "measure (\<lambda>(ts, cur, ps). length ts)")
  show "wf (measure (\<lambda>(ts, cur, ps). length ts))" by simp
next
  fix t ts cur res rest and ps :: ParserState
  assume "res = parseStory t ts (parseErrors ps)" and "rest = fst res"
  then have "rest = fst (storyLoop ts t (initialStoryState t (parseErrors ps)))"
    by (simp add: parseStory_def split: prod.splits)
  moreover have "length (fst (storyLoop ts prev st)) \<le> length ts" for prev st
    by (induction ts arbitrary: prev st) (auto simp: le_SucI)
  ultimately have "length rest \<le> length ts" by simp
  then show "((rest, cur + (length (t # ts) - length rest),
               ps\<lparr>stories := stories ps @ [fst (snd res)], parseErrors := snd (snd res)\<rparr>),
              t # ts, cur, ps) \<in> measure (\<lambda>(ts, cur, ps). length ts)"
    by simp
qed auto

text \<open>\<open>parse\<close>: the document is the final state of the parser.\<close>

definition parse :: "string \<Rightarrow> ParserState" where
  "parse text =
     (let lexerResult = tokenize text;
          ps = parseLoop (tokens lexerResult) 0
                 \<lparr>stories = [], isDisabled = checkDisabled (tokens lexerResult),
                  parseErrors = errors lexerResult\<rparr>
      in ps\<lparr>parseErrors := validateJumpTargets (stories ps) (parseErrors ps)\<rparr>)"

subsection \<open>Vocabulary for the properties of \<open>parse\<close>\<close>

text \<open>
  The parser at the end of the loop of \<open>parse\<close>, before the call of \<open>validateJumpTargets\<close>;
  and the errors that have the code of the jump check.
\<close>

definition beforeJumpCheck :: "string \<Rightarrow> ParserState" where
  "beforeJumpCheck text =
     (let lexerResult = tokenize text
      in parseLoop (tokens lexerResult) 0
           \<lparr>stories = [], isDisabled = checkDisabled (tokens lexerResult),
            parseErrors = errors lexerResult\<rparr>)"

definition isUnknownTargetError :: "ParseError \<Rightarrow> bool" where
  "isUnknownTargetError e = (code e = ''unknown-jump-target'')"

section \<open>The bracket validator\<close>
















section \<open>Diagnostics (diagnostics.ts)\<close>

datatype DiagnosticSeverity = Error | Warning | Information | Hint

record Diagnostic =
  dseverity :: DiagnosticSeverity
  drange :: Range
  dmessage :: string
  dsource :: string
  dcode :: "string option"

definition getSeverity :: "Severity \<Rightarrow> DiagnosticSeverity" where
  "getSeverity sv =
     (case sv of SevError \<Rightarrow> Error | SevWarning \<Rightarrow> Warning | SevInfo \<Rightarrow> Information
      | SevHint \<Rightarrow> Hint)"

definition convertToDiagnostic :: "ParseError \<Rightarrow> Diagnostic" where
  "convertToDiagnostic e =
     \<lparr>dseverity = getSeverity (severity e), drange = erange e, dmessage = message e,
      dsource = ''exoscript'', dcode = Some (code e)\<rparr>"

text \<open>The table \<open>typoMap\<close> of \<open>additionalValidation\<close>.\<close>

definition typoMap :: "(string \<times> string) list" where
  "typoMap = [(''iff'', ''if''), (''fi'', ''if''), (''ifdd'', ''ifd''), (''sett'', ''set''),
              (''setiff'', ''setif''), (''calll'', ''call''), (''calliff'', ''callif''),
              (''disable'', ''disabled''), (''disabeld'', ''disabled'')]"

text \<open>
  \<open>typoMap[cmd]\<close>. The table is an object literal, so the lookup also finds what the object
  inherits from \<open>Object.prototype\<close>. The command word is a lower-case word, and the only
  inherited properties with such a name are \<open>constructor\<close> (a function) and \<open>__proto__\<close> (an
  object); both are truthy, and the template literal of the message renders them as below.
\<close>

definition typoLookup :: "string \<Rightarrow> string option" where
  "typoLookup cmd =
     (case map_of typoMap cmd of
        Some fix \<Rightarrow> Some fix
      | None \<Rightarrow>
          if cmd = ''constructor'' then Some ''function Object() { [native code] }''
          else if cmd = ''__proto__'' then Some ''[object Object]''
          else None)"

text \<open>\<open>/^~(\w+)/\<close>: the command word.\<close>

definition tildeWordMatch :: "string \<Rightarrow> string option" where
  "tildeWordMatch t =
     (case t of
        [] \<Rightarrow> None
      | c # r \<Rightarrow> if c = CHR ''~'' \<and> takeWhile isWordChar r \<noteq> []
                 then Some (takeWhile isWordChar r) else None)"

text \<open>The first check of \<open>additionalValidation\<close>, "typos in tilde commands", for one line:
  the diagnostics it pushes.\<close>

definition typoCheck :: "string \<Rightarrow> int \<Rightarrow> Diagnostic list" where
  "typoCheck ln lineNum =
     (case tildeWordMatch (trim ln) of
        None \<Rightarrow> []
      | Some w \<Rightarrow>
          (let cmd = toLowerCase w
           in case typoLookup cmd of
                None \<Rightarrow> []
              | Some fix \<Rightarrow>
                  [\<lparr>dseverity = Error,
                    drange = \<lparr>rstart = \<lparr>line = lineNum, character = indexOf ln ''~''\<rparr>,
                              rend = \<lparr>line = lineNum,
                                      character = indexOf ln ''~'' + int (length cmd) + 1\<rparr>\<rparr>,
                    dmessage = ''Did you mean ~'' @ fix @ ''?'',
                    dsource = ''exoscript'', dcode = Some ''typo''\<rparr>]))"

section \<open>Parenthesis balance\<close>

text \<open>The effect of one character on the counter, and the counter a whole string adds up to.\<close>

definition parenDelta :: "char \<Rightarrow> int" where
  "parenDelta c = (if c = CHR ''('' then 1 else if c = CHR '')'' then - 1 else 0)"

definition balance :: "string \<Rightarrow> int" where
  "balance s = sum_list (map parenDelta s)"




section \<open>Properties of the lexer\<close>

lemma push_simps [simp]:
  "lineTypes (pushToken t st) = lineTypes st"
  "lineTypes (pushError e st) = lineTypes st"
  "lineTypes (pushLineType k st) = lineTypes st @ [k]"
  "tokens (pushToken t st) = tokens st @ [t]"
  "tokens (pushError e st) = tokens st"
  "tokens (pushLineType k st) = tokens st"
  "errors (pushToken t st) = errors st"
  "errors (pushError e st) = errors st @ [e]"
  "errors (pushLineType k st) = errors st"
  by (simp_all add: pushToken_def pushError_def pushLineType_def)

lemma tokenizeLineContent_simps [simp]:
  "lineTypes (tokenizeLineContent n off c st) = lineTypes st"
  "errors (tokenizeLineContent n off c st) = errors st"
  "filter isEOF (tokens (tokenizeLineContent n off c st)) = filter isEOF (tokens st)"
  by (simp_all add: tokenizeLineContent_def isEOF_def)

lemma getTildeTokenType_not_EOF [simp]: "getTildeTokenType cmd \<noteq> EOF"
  by (simp add: getTildeTokenType_def Let_def)

lemma parenLoop_severity:
  "list_all severityRule es \<Longrightarrow>
   list_all severityRule (snd (parenLoop msg ln so cs i pc fe es))"
  by (induction cs arbitrary: i pc fe es) (simp_all add: Let_def severityRule_def)

lemma validateConditionExpression_severity:
  "list_all severityRule es \<Longrightarrow>
   list_all severityRule (validateConditionExpression e ln so es)"
  using parenLoop_severity [of es "''Unbalanced parentheses: unexpected )''" ln so "trim e" 0 0 False]
  by (simp add: validateConditionExpression_def Let_def severityRule_def case_prod_beta)

lemma validateSetExpression_severity:
  "list_all severityRule es \<Longrightarrow>
   list_all severityRule (validateSetExpression e ln so es)"
  using parenLoop_severity [of es "''Unbalanced parentheses in set expression''" ln so "trim e" 0 0 False]
  by (simp add: validateSetExpression_def Let_def severityRule_def case_prod_beta)

lemma validateTildeCommand_severity:
  "list_all severityRule es \<Longrightarrow>
   list_all severityRule (validateTildeCommand cmd e ln si es)"
  by (simp add: validateTildeCommand_def Let_def validateConditionExpression_severity
        validateSetExpression_severity)
     (simp add: severityRule_def)

lemma lex_lineTypes [simp]:
  "lineTypes (lexBlockCommentContinuation ln n st)
     = lineTypes st @ [if indexOf ln ''*/'' \<noteq> - 1 then LT_COMMENT else LT_IN_BLOCK_COMMENT]"
  "lineTypes (lexBlockCommentStart ln n st) = lineTypes st @ [LT_COMMENT]"
  "lineTypes (lexLineComment ln n st) = lineTypes st @ [LT_COMMENT]"
  "lineTypes (lexDivider ln n st) = lineTypes st @ [LT_COMMENT]"
  "lineTypes (lexStoryHeader m0 sd ln n st) = lineTypes st @ [LT_STORY_HEADER]"
  "lineTypes (lexInvalidStoryHeader ln n st) = lineTypes st @ [LT_STORY_HEADER]"
  "lineTypes (lexTildeCommand w rest ln n st) = lineTypes st @ [LT_TILDE_COMMAND]"
  "lineTypes (lexJump arrows bang rest ln n st) = lineTypes st @ [LT_JUMP]"
  "lineTypes (lexChoiceId w ln n st) = lineTypes st @ [LT_CHOICE_ID]"
  "lineTypes (lexChoice stars eq rest0 ln n st) = lineTypes st @ [LT_CHOICE]"
  "lineTypes (lexPageBreak ln n st) = lineTypes st @ [LT_PAGE_BREAK]"
  "lineTypes (lexText ln n st) = lineTypes st @ [LT_TEXT]"
  by (simp_all add: lexBlockCommentContinuation_def lexBlockCommentStart_def lexLineComment_def
        lexDivider_def lexStoryHeader_def lexInvalidStoryHeader_def lexTildeCommand_def
        lexJump_def lexChoiceId_def lexChoice_def lexPageBreak_def lexText_def Let_def
        split: option.split)

lemma lex_no_EOF [simp]:
  "filter isEOF (tokens (lexBlockCommentContinuation ln n st)) = filter isEOF (tokens st)"
  "filter isEOF (tokens (lexBlockCommentStart ln n st)) = filter isEOF (tokens st)"
  "filter isEOF (tokens (lexLineComment ln n st)) = filter isEOF (tokens st)"
  "filter isEOF (tokens (lexDivider ln n st)) = filter isEOF (tokens st)"
  "filter isEOF (tokens (lexStoryHeader m0 sd ln n st)) = filter isEOF (tokens st)"
  "filter isEOF (tokens (lexInvalidStoryHeader ln n st)) = filter isEOF (tokens st)"
  "filter isEOF (tokens (lexTildeCommand w rest ln n st)) = filter isEOF (tokens st)"
  "filter isEOF (tokens (lexJump arrows bang rest ln n st)) = filter isEOF (tokens st)"
  "filter isEOF (tokens (lexChoiceId w ln n st)) = filter isEOF (tokens st)"
  "filter isEOF (tokens (lexChoice stars eq rest0 ln n st)) = filter isEOF (tokens st)"
  "filter isEOF (tokens (lexPageBreak ln n st)) = filter isEOF (tokens st)"
  "filter isEOF (tokens (lexText ln n st)) = filter isEOF (tokens st)"
  by (simp_all add: lexBlockCommentContinuation_def lexBlockCommentStart_def lexLineComment_def
        lexDivider_def lexStoryHeader_def lexInvalidStoryHeader_def lexTildeCommand_def
        lexJump_def lexChoiceId_def lexChoice_def lexPageBreak_def lexText_def Let_def isEOF_def
        split: option.split)

lemma lex_errors [simp]:
  "errors (lexBlockCommentContinuation ln n st) = errors st"
  "errors (lexBlockCommentStart ln n st) = errors st"
  "errors (lexLineComment ln n st) = errors st"
  "errors (lexDivider ln n st) = errors st"
  "errors (lexStoryHeader m0 sd ln n st) = errors st"
  "errors (lexJump arrows bang rest ln n st) = errors st"
  "errors (lexChoiceId w ln n st) = errors st"
  "errors (lexPageBreak ln n st) = errors st"
  "errors (lexText ln n st) = errors st"
  by (simp_all add: lexBlockCommentContinuation_def lexBlockCommentStart_def lexLineComment_def
        lexDivider_def lexStoryHeader_def lexJump_def lexChoiceId_def lexPageBreak_def
        lexText_def Let_def)

lemma lex_severity:
  "list_all severityRule (errors st) \<Longrightarrow>
     list_all severityRule (errors (lexInvalidStoryHeader ln n st))"
  "list_all severityRule (errors st) \<Longrightarrow>
     list_all severityRule (errors (lexTildeCommand w rest ln n st))"
  "list_all severityRule (errors st) \<Longrightarrow>
     list_all severityRule (errors (lexChoice stars eq rest0 ln n st))"
  by (simp_all add: lexInvalidStoryHeader_def lexTildeCommand_def lexChoice_def Let_def
        validateTildeCommand_severity split: option.split)
     (simp_all add: severityRule_def)

lemma tokenizeLine_cases:
  assumes "P (lexBlockCommentContinuation ln n st)"
    and "P (pushLineType LT_EMPTY st)"
    and "P (lexBlockCommentStart ln n st)"
    and "P (lexLineComment ln n st)"
    and "P (lexDivider ln n st)"
    and "\<And>m0 sd. P (lexStoryHeader m0 sd ln n st)"
    and "P (lexInvalidStoryHeader ln n st)"
    and "\<And>w rest. P (lexTildeCommand w rest ln n st)"
    and "\<And>arrows bang rest. P (lexJump arrows bang rest ln n st)"
    and "\<And>w. P (lexChoiceId w ln n st)"
    and "\<And>stars eq rest0. P (lexChoice stars eq rest0 ln n st)"
    and "P (lexPageBreak ln n st)"
    and "P (lexText ln n st)"
  shows "P (tokenizeLine ln n st)"
  by (simp add: tokenizeLine_def Let_def assms split: prod.split)

lemma tokenizeLine_lineTypes:
  "length (lineTypes (tokenizeLine ln n st)) = Suc (length (lineTypes st))"
  by (rule tokenizeLine_cases
        [where P = "\<lambda>s. length (lineTypes s) = Suc (length (lineTypes st))"]) simp_all

lemma tokenizeLine_no_EOF:
  "filter isEOF (tokens (tokenizeLine ln n st)) = filter isEOF (tokens st)"
  by (rule tokenizeLine_cases
        [where P = "\<lambda>s. filter isEOF (tokens s) = filter isEOF (tokens st)"]) simp_all

lemma tokenizeLine_severity:
  "list_all severityRule (errors st) \<Longrightarrow> list_all severityRule (errors (tokenizeLine ln n st))"
  by (rule tokenizeLine_cases [where P = "\<lambda>s. list_all severityRule (errors s)"])
     (simp_all add: lex_severity)

lemma tokenizeLines_lineTypes:
  "length (lineTypes (tokenizeLines ls n st)) = length (lineTypes st) + length ls"
  by (induction ls arbitrary: n st) (simp_all add: tokenizeLine_lineTypes)

lemma tokenizeLines_no_EOF:
  "filter isEOF (tokens (tokenizeLines ls n st)) = filter isEOF (tokens st)"
  by (induction ls arbitrary: n st) (simp_all add: tokenizeLine_no_EOF)

lemma tokenizeLines_severity:
  "list_all severityRule (errors st) \<Longrightarrow> list_all severityRule (errors (tokenizeLines ls n st))"
  by (induction ls arbitrary: n st) (simp_all add: tokenizeLine_severity)

lemma tokenize_lineTypes:
  "lineTypes (tokenize text) = lineTypes (tokenizeLines (splitLines text) 0 initialLexerState)"
  by (simp add: tokenize_def Let_def split: bool.split option.split)

lemma tokenize_tokens:
  "\<exists>eof. isEOF eof \<and>
     tokens (tokenize text) = tokens (tokenizeLines (splitLines text) 0 initialLexerState) @ [eof]"
  by (simp add: tokenize_def Let_def isEOF_def split: bool.split option.split)

lemma tokenizeLine_text:
  "\<not> inBlockComment st \<Longrightarrow> \<not> higherPriorityMatch ln \<Longrightarrow> tokenizeLine ln n st = lexText ln n st"
  unfolding higherPriorityMatch_def Let_def
  by (simp add: tokenizeLine_def Let_def) fastforce

text \<open>
  Claim C1. For every text, the lexer pushes exactly one line type per line of
  \<open>text.split(/\r?\n/)\<close>, whatever the lines contain, and its token list holds exactly one
  EOF token, the last one. No line is rejected: outside a block comment, a line that meets
  none of the conditions of the earlier branches is classified as text.
\<close>

theorem lexer_one_record_per_line:
  "length (lineTypes (tokenize text)) = length (splitLines text)
   \<and> length (filter isEOF (tokens (tokenize text))) = 1
   \<and> isEOF (last (tokens (tokenize text)))
   \<and> (\<not> inBlockComment st \<and> \<not> higherPriorityMatch ln \<longrightarrow>
        lineTypes (tokenizeLine ln n st) = lineTypes st @ [LT_TEXT])"
proof -
  have a: "length (lineTypes (tokenize text)) = length (splitLines text)"
    by (simp add: tokenize_lineTypes tokenizeLines_lineTypes initialLexerState_def)
  obtain eof where eof: "isEOF eof"
    "tokens (tokenize text) = tokens (tokenizeLines (splitLines text) 0 initialLexerState) @ [eof]"
    using tokenize_tokens by blast
  have b: "length (filter isEOF (tokens (tokenize text))) = 1"
    using eof by (simp add: tokenizeLines_no_EOF initialLexerState_def)
  have c: "isEOF (last (tokens (tokenize text)))"
    using eof by simp
  have d: "\<not> inBlockComment st \<and> \<not> higherPriorityMatch ln \<longrightarrow>
        lineTypes (tokenizeLine ln n st) = lineTypes st @ [LT_TEXT]"
    by (simp add: tokenizeLine_text)
  from a b c d show ?thesis by blast
qed


theorem lexer_one_record_per_line_witness:
  "length (lineTypes (tokenize (''=== t'' @ [CHR 0x0D, CHR 0x0A] @ ''?? [text'' @ [CHR 0x0A]))) = 3
   \<and> \<not> inBlockComment initialLexerState \<and> \<not> higherPriorityMatch ''?? [text''
   \<and> lineTypes (tokenizeLine ''?? [text'' 1 initialLexerState) = [LT_TEXT]"
proof -
  have h: "\<not> inBlockComment initialLexerState \<and> \<not> higherPriorityMatch ''?? [text''"
    by code_simp
  have l: "length (splitLines (''=== t'' @ [CHR 0x0D, CHR 0x0A] @ ''?? [text'' @ [CHR 0x0A])) = 3"
    by code_simp
  have e: "lineTypes initialLexerState = []" by (simp add: initialLexerState_def)
  show ?thesis
    using lexer_one_record_per_line
      [of "''=== t'' @ [CHR 0x0D, CHR 0x0A] @ ''?? [text'' @ [CHR 0x0A]" initialLexerState
          "''?? [text''" 1] h l e
    by simp
qed


text \<open>
  Claim C9, as amended. Every error of the lexer has severity error, and is surfaced as
  \<open>Error\<close>, except the error for a missing expression of a tilde command (code
  \<open>empty-tilde-expression\<close>), which has severity warning and is surfaced as \<open>Warning\<close>.
\<close>

theorem lexer_severities:
  "(\<forall>e \<in> set (errors (tokenize text)).
      severityRule e \<and>
      dseverity (convertToDiagnostic e)
        = (if code e = ''empty-tilde-expression'' then Warning else Error))
   \<and> (\<forall>d \<in> set (typoCheck ln n). dseverity d = Error)"
proof -
  have typo: "\<forall>d \<in> set (typoCheck ln n). dseverity d = Error"
    by (auto simp: typoCheck_def Let_def split: option.splits)
  have "list_all severityRule (errors (tokenizeLines (splitLines text) 0 initialLexerState))"
    by (rule tokenizeLines_severity) (simp add: initialLexerState_def)
  then have "list_all severityRule (errors (tokenize text))"
    by (simp add: tokenize_def Let_def severityRule_def split: bool.split option.split)
  then have "\<forall>e \<in> set (errors (tokenize text)). severityRule e"
    by (simp add: list_all_iff)
  then have "\<forall>e \<in> set (errors (tokenize text)).
      severityRule e \<and>
      dseverity (convertToDiagnostic e)
        = (if code e = ''empty-tilde-expression'' then Warning else Error)"
    by (auto simp: severityRule_def convertToDiagnostic_def getSeverity_def)
  with typo show ?thesis by blast
qed



theorem lexer_severities_witness:
  "\<lparr>message = ''~ifd requires a condition or expression'', erange = makeRange 0 0 4,
      severity = SevWarning, code = ''empty-tilde-expression''\<rparr> \<in> set (errors (tokenize ''~ifd''))
   \<and> dseverity (convertToDiagnostic \<lparr>message = ''~ifd requires a condition or expression'',
        erange = makeRange 0 0 4, severity = SevWarning, code = ''empty-tilde-expression''\<rparr>)
       = Warning"
proof -
  have m: "errors (tokenize ''~ifd'') =
      [\<lparr>message = ''~ifd requires a condition or expression'', erange = makeRange 0 0 4,
         severity = SevWarning, code = ''empty-tilde-expression''\<rparr>]"
    by code_simp
  show ?thesis using lexer_severities [of "''~ifd''" "''~ifd''" 0] m by simp
qed

text \<open>
  Claim C9 as stated fails: the line \<open>~if\<close> is a recognized command that requires an
  expression and has none, and its diagnostic is a \<open>Warning\<close>.
\<close>

theorem missing_expression_is_warning:
  "map convertToDiagnostic (errors (tokenize ''~if'')) =
     [\<lparr>dseverity = Warning, drange = makeRange 0 0 3,
       dmessage = ''~if requires a condition or expression'',
       dsource = ''exoscript'', dcode = Some ''empty-tilde-expression''\<rparr>]"
  by code_simp

section \<open>Properties of the parenthesis check\<close>

lemma balance_Nil [simp]: "balance [] = 0"
  by (simp add: balance_def)

lemma balance_Cons [simp]: "balance (c # cs) = parenDelta c + balance cs"
  by (simp add: balance_def)
















section \<open>Unknown tilde commands and the table of typos\<close>

lemma startsWith_Cons:
  "startsWith (c # cs) (p # ps) \<longleftrightarrow> c = p \<and> startsWith cs ps"
  by (simp add: startsWith_def)

lemma startsWith_Nil [simp]: "startsWith s []"
  by (simp add: startsWith_def)

lemma tildeMatch_SomeD:
  assumes "tildeMatch t = Some (w, rest)"
  shows "\<exists>r. t = CHR ''~'' # r \<and> w = takeWhile isWordChar r \<and> w \<noteq> []"
  using assms by (cases t) (auto simp: tildeMatch_def Let_def split: if_splits)

lemma tokenizeLine_tilde:
  assumes "\<not> inBlockComment st" "\<not> opensBlockComment ln"
    and "tildeMatch (trim ln) = Some (w, rest)"
  shows "tokenizeLine ln n st = lexTildeCommand w rest ln n st"
proof -
  obtain r where r: "trim ln = CHR ''~'' # r" using tildeMatch_SomeD [OF assms(3)] by blast
  have "\<not> startsWith (trim ln) ''//''" "\<not> startsWith (trim ln) ''===''"
       "\<not> startsWith (trim ln) ''===='' " "storyMatch (trim ln) = None"
    by (simp_all add: r startsWith_Cons storyMatch_def)
  then show ?thesis using assms r by (simp add: tokenizeLine_def Let_def)
qed

lemma tildeWordMatch_of_tildeMatch:
  "tildeMatch t = Some (w, rest) \<Longrightarrow> tildeWordMatch t = Some w"
  by (cases t) (auto simp: tildeMatch_def tildeWordMatch_def Let_def split: if_splits)

text \<open>
  Claim C8, as amended. For a line that reaches the branch of tilde commands with a command
  word that is not in \<open>TILDE_COMMANDS\<close>, the lexer pushes the "unknown tilde command" error,
  whether or not the word is in the table of typos; when the word is in the table, the first
  check of \<open>additionalValidation\<close> pushes a "did you mean" diagnostic with the table's
  correction as well. In general that check pushes one diagnostic exactly when the lookup
  \<open>typoMap[cmd]\<close> finds something, and nothing otherwise.
\<close>

theorem unknown_command_and_typo:
  assumes "\<not> inBlockComment st" and "\<not> opensBlockComment ln"
    and "tildeMatch (trim ln) = Some (w, rest)"
    and "toLowerCase w \<notin> set TILDE_COMMANDS"
  shows "errors (tokenizeLine ln n st)
           = errors st @
             [\<lparr>message = ''Unknown tilde command: ~'' @ toLowerCase w @ ''. Valid commands: ''
                          @ ''if, ifd, set, setif, call, callif, disabled, once'',
               erange = makeRange n (indexOf ln ''~'')
                          (indexOf ln ''~'' + int (length (toLowerCase w)) + 1),
               severity = SevError, code = ''unknown-tilde-command''\<rparr>]
         \<and> (map_of typoMap (toLowerCase w) = Some fx \<longrightarrow> typoLookup (toLowerCase w) = Some fx)
         \<and> typoCheck ln n
           = (case typoLookup (toLowerCase w) of
                None \<Rightarrow> []
              | Some fix \<Rightarrow>
                  [\<lparr>dseverity = Error,
                    drange = \<lparr>rstart = \<lparr>line = n, character = indexOf ln ''~''\<rparr>,
                              rend = \<lparr>line = n,
                                      character = indexOf ln ''~''
                                                  + int (length (toLowerCase w)) + 1\<rparr>\<rparr>,
                    dmessage = ''Did you mean ~'' @ fix @ ''?'',
                    dsource = ''exoscript'', dcode = Some ''typo''\<rparr>])"
  using assms
  by (simp add: tokenizeLine_tilde lexTildeCommand_def Let_def typoCheck_def
        tildeWordMatch_of_tildeMatch typoLookup_def)

theorem unknown_command_and_typo_witness:
  "errors (tokenizeLine ''~sett var_x = 1'' 1 initialLexerState)
     = [\<lparr>message = ''Unknown tilde command: ~sett. Valid commands: if, ifd, set, setif, call, callif, disabled, once'',
         erange = makeRange 1 0 5, severity = SevError, code = ''unknown-tilde-command''\<rparr>]
   \<and> typoCheck ''~sett var_x = 1'' 1
     = [\<lparr>dseverity = Error, drange = makeRange 1 0 5, dmessage = ''Did you mean ~set?'',
         dsource = ''exoscript'', dcode = Some ''typo''\<rparr>]"
proof -
  have h: "\<not> inBlockComment initialLexerState" "\<not> opensBlockComment ''~sett var_x = 1''"
    "tildeMatch (trim ''~sett var_x = 1'') = Some (''sett'', ''var_x = 1'')"
    "toLowerCase ''sett'' \<notin> set TILDE_COMMANDS"
    by code_simp+
  have e: "errors initialLexerState = []" "toLowerCase ''sett'' = ''sett''"
    "indexOf ''~sett var_x = 1'' ''~'' = 0" "typoLookup ''sett'' = Some ''set''"
    by code_simp+
  show ?thesis
    using unknown_command_and_typo [OF h, of 1 "''set''"] e by (simp add: makeRange_def)
qed

text \<open>
  Claim C8 as stated fails: for \<open>~iff\<close>, which is in the table of typos, the parser's errors
  still hold the "unknown tilde command" error of the lexer, next to the "did you mean"
  diagnostic.
\<close>

theorem typo_does_not_replace_unknown_command:
  "parseErrors (parse (''=== test'' @ [CHR 0x0A] @ ''~iff age >= 10'' @ [CHR 0x0A] @ ''Some text''))
     = [\<lparr>message = ''Unknown tilde command: ~iff. Valid commands: if, ifd, set, setif, call, callif, disabled, once'',
         erange = makeRange 1 0 4, severity = SevError, code = ''unknown-tilde-command''\<rparr>]
   \<and> typoCheck ''~iff age >= 10'' 1
     = [\<lparr>dseverity = Error, drange = makeRange 1 0 4, dmessage = ''Did you mean ~if?'',
         dsource = ''exoscript'', dcode = Some ''typo''\<rparr>]"
  by code_simp


section \<open>Properties of the bracket validator\<close>




















section \<open>Properties of the jump check\<close>








text \<open>Targets of the shape \<open>if cond ? a : b\<close> match the regular expression.\<close>

lemma not_word_chars [simp]:
  "\<not> isWordChar (CHR '' '')" "\<not> isWordChar (CHR '':'')" "\<not> isWordChar (CHR ''?'')"
  "isWhitespace (CHR '' '')" "\<not> isWhitespace (CHR '':'')" "\<not> isWhitespace (CHR ''?'')"
  by (simp_all add: isWordChar_def isWhitespace_def)











section \<open>Properties of \<open>parseStory\<close>\<close>

subsection \<open>The identifier map\<close>

lemma mapHas_Nil [simp]: "\<not> mapHas [] k"
  by (simp add: mapHas_def)

lemma mapSet_fresh: "\<not> mapHas m k \<Longrightarrow> mapSet k v m = m @ [(k, v)]"
  by (induction m) (auto simp: mapHas_def)

lemma mapHas_append: "mapHas (m @ [(k, v)]) k' \<longleftrightarrow> k' = k \<or> mapHas m k'"
  by (auto simp: mapHas_def)

lemma mapGet_imp_mapHas: "mapGet m k = Some v \<Longrightarrow> mapHas m k"
  by (auto simp: mapGet_def mapHas_def dest: map_of_SomeD intro: rev_image_eqI)

lemma mapGet_append_fresh:
  "mapGet m k' = Some x \<Longrightarrow> mapGet (m @ [(k, v)]) k' = Some x"
  by (simp add: mapGet_def)

lemma distinct_append_fresh:
  "distinct (map fst m) \<Longrightarrow> \<not> mapHas m k \<Longrightarrow> distinct (map fst (m @ [(k, v)]))"
  by (simp add: mapHas_def)

subsection \<open>What a step does to the identifier map and to the errors\<close>

lemma updChoices_simps [simp]:
  "choiceIds (story (updChoices f st)) = choiceIds (story st)"
  "choices (story (updChoices f st)) = f (choices (story st))"
  "perrors (updChoices f st) = perrors st"
  "choiceStack (updChoices f st) = choiceStack st"
  "currentChoice (updChoices f st) = currentChoice st"
  by (simp_all add: updChoices_def)

lemma pushRoot_simps [simp]:
  "choiceIds (story (fst (pushRoot n st))) = choiceIds (story st)"
  "choices (story (fst (pushRoot n st))) = choices (story st) @ [n]"
  "perrors (fst (pushRoot n st)) = perrors st"
  "snd (pushRoot n st) = [length (choices (story st))]"
  by (simp_all add: pushRoot_def)

lemma pushChildAt_simps [simp]:
  "choiceIds (story (fst (pushChildAt p n st))) = choiceIds (story st)"
  "choices (story (fst (pushChildAt p n st))) = updateAt p (pushChild n) (choices (story st))"
  "perrors (fst (pushChildAt p n st)) = perrors st"
  by (simp_all add: pushChildAt_def)

lemma stepChoice_ids [simp]:
  "choiceIds (story (stepChoice t st)) = choiceIds (story st)"
  by (simp add: stepChoice_def Let_def case_prod_beta)

lemma stepChoiceId_ids:
  "choiceIds (story (stepChoiceId t st))
     = (if mapHas (choiceIds (story st)) (tokChoiceId t) then choiceIds (story st)
        else choiceIds (story st) @ [(tokChoiceId t, parseChoiceId t)])"
  by (simp add: stepChoiceId_def Let_def case_prod_beta parseChoiceId_def mapSet_fresh
           split: option.split)

lemma stepChoiceId_perrors:
  "perrors (stepChoiceId t st)
     = perrors st @ (if mapHas (choiceIds (story st)) (tokChoiceId t)
                     then [duplicateIdError t] else [])"
  by (simp add: stepChoiceId_def Let_def case_prod_beta parseChoiceId_def duplicateIdError_def
           split: option.split)

lemma storyStep_ids:
  "choiceIds (story (storyStep t st))
     = (if ttype t = CHOICE_ID \<and> \<not> mapHas (choiceIds (story st)) (tokChoiceId t)
        then choiceIds (story st) @ [(tokChoiceId t, parseChoiceId t)]
        else choiceIds (story st))"
  by (simp add: storyStep_def Let_def stepChoiceId_ids split: option.split)

lemma stepChoice_perrors:
  "\<exists>new. perrors (stepChoice t st) = perrors st @ new"
  by (simp add: stepChoice_def Let_def case_prod_beta)

lemma storyStep_perrors:
  "\<exists>new. perrors (storyStep t st) = perrors st @ new"
  using stepChoice_perrors [of t st]
  by (auto simp: storyStep_def Let_def stepChoiceId_perrors split: option.split)

lemma storyStep_mapGet:
  "mapGet (choiceIds (story st)) k = Some v \<Longrightarrow>
   mapGet (choiceIds (story (storyStep t st))) k = Some v"
  by (simp add: storyStep_ids mapGet_append_fresh)

lemma storyStep_distinct:
  "distinct (map fst (choiceIds (story st))) \<Longrightarrow>
   distinct (map fst (choiceIds (story (storyStep t st))))"
  by (simp add: storyStep_ids mapHas_def)

subsection \<open>The loop of \<open>parseStory\<close>\<close>

lemma storyLoop_invariant:
  assumes "P st" and "\<And>t s. P s \<Longrightarrow> P (storyStep t s)"
  shows "P (snd (snd (storyLoop ts prev st)))"
  using assms(1)
proof (induction ts arbitrary: prev st)
  case Nil
  then show ?case by simp
next
  case (Cons t ts)
  then show ?case by (simp add: assms(2))
qed

lemma storyLoop_append:
  assumes "\<forall>x \<in> set pre. isStoryToken x"
  shows "storyLoop (pre @ rest) prev st
         = storyLoop rest (last (prev # pre)) (fold storyStep pre st)"
  using assms by (induction pre arbitrary: prev st) (simp_all add: isStoryToken_def)

lemma fold_storyStep_invariant:
  assumes "P st" and "\<And>t s. P s \<Longrightarrow> P (storyStep t s)"
  shows "P (fold storyStep ts st)"
  using assms(1) by (induction ts arbitrary: st) (simp_all add: assms(2))

lemma storyLoop_perrors:
  "\<exists>new. perrors (snd (snd (storyLoop ts prev st))) = perrors st @ new"
proof (induction ts arbitrary: prev st)
  case Nil
  then show ?case by simp
next
  case (Cons t ts)
  obtain n1 where n1: "perrors (storyStep t st) = perrors st @ n1"
    using storyStep_perrors by blast
  obtain n2 where "perrors (snd (snd (storyLoop ts t (storyStep t st))))
                    = perrors (storyStep t st) @ n2"
    using Cons.IH by blast
  then show ?case using n1 by simp
qed

lemma newStory_ids: "choiceIds (newStory h) = [(''start'', startEntry h)]"
  by (simp add: newStory_def startEntry_def)

lemma parseStory_story:
  "fst (snd (parseStory h ts es))
     = (story (snd (snd (storyLoop ts h (initialStoryState h es)))))
         \<lparr>srange := \<lparr>rstart = rstart (trange h),
                     rend = rend (trange (fst (snd (storyLoop ts h (initialStoryState h es)))))\<rparr>\<rparr>"
  "snd (snd (parseStory h ts es)) = perrors (snd (snd (storyLoop ts h (initialStoryState h es))))"
  by (simp_all add: parseStory_def case_prod_beta)

text \<open>
  Claim C5. When a \<open>CHOICE_ID\<close> token registers an identifier that the story's map has
  already, the map stays as it is and exactly one "Duplicate choice ID" error of severity
  error is pushed, with the range of that second token; when the map does not have the
  identifier, the entry is appended and no error is pushed. No step of the loop, whatever
  the token, changes the entry of a key that is in the map, so the first registration is
  the one that stays, up to the end of the story. The keys of the map of a parsed story are
  distinct.
\<close>

theorem choice_id_registration:
  "(ttype tok = CHOICE_ID \<and> mapHas (choiceIds (story st)) (tokChoiceId tok) \<longrightarrow>
      choiceIds (story (storyStep tok st)) = choiceIds (story st)
      \<and> perrors (storyStep tok st) = perrors st @ [duplicateIdError tok])
   \<and> (ttype tok = CHOICE_ID \<and> \<not> mapHas (choiceIds (story st)) (tokChoiceId tok) \<longrightarrow>
      choiceIds (story (storyStep tok st))
        = choiceIds (story st) @ [(tokChoiceId tok, parseChoiceId tok)]
      \<and> perrors (storyStep tok st) = perrors st)
   \<and> (mapGet (choiceIds (story st)) k = Some v \<longrightarrow>
        mapGet (choiceIds (story (storyStep tok st))) k = Some v
        \<and> mapGet (choiceIds (story (snd (snd (storyLoop ts prev st))))) k = Some v)
   \<and> distinct (map fst (choiceIds (fst (snd (parseStory h ts es)))))
   \<and> erange (duplicateIdError tok) = trange tok
   \<and> severity (duplicateIdError tok) = SevError"
proof -
  have 1: "ttype tok = CHOICE_ID \<and> mapHas (choiceIds (story st)) (tokChoiceId tok) \<longrightarrow>
      choiceIds (story (storyStep tok st)) = choiceIds (story st)
      \<and> perrors (storyStep tok st) = perrors st @ [duplicateIdError tok]"
    by (simp add: storyStep_ids) (simp add: storyStep_def stepChoiceId_perrors)
  have 2: "ttype tok = CHOICE_ID \<and> \<not> mapHas (choiceIds (story st)) (tokChoiceId tok) \<longrightarrow>
      choiceIds (story (storyStep tok st))
        = choiceIds (story st) @ [(tokChoiceId tok, parseChoiceId tok)]
      \<and> perrors (storyStep tok st) = perrors st"
    by (simp add: storyStep_ids) (simp add: storyStep_def stepChoiceId_perrors)
  have 3: "mapGet (choiceIds (story st)) k = Some v \<longrightarrow>
        mapGet (choiceIds (story (storyStep tok st))) k = Some v
        \<and> mapGet (choiceIds (story (snd (snd (storyLoop ts prev st))))) k = Some v"
  proof
    assume a: "mapGet (choiceIds (story st)) k = Some v"
    have "mapGet (choiceIds (story (snd (snd (storyLoop ts prev st))))) k = Some v"
      by (rule storyLoop_invariant [where P = "\<lambda>s. mapGet (choiceIds (story s)) k = Some v"])
         (simp_all add: a storyStep_mapGet)
    then show "mapGet (choiceIds (story (storyStep tok st))) k = Some v
        \<and> mapGet (choiceIds (story (snd (snd (storyLoop ts prev st))))) k = Some v"
      using a by (simp add: storyStep_mapGet)
  qed
  have "distinct (map fst (choiceIds (story (snd (snd (storyLoop ts h (initialStoryState h es)))))))"
    by (rule storyLoop_invariant [where P = "\<lambda>s. distinct (map fst (choiceIds (story s)))"])
       (simp_all add: initialStoryState_def newStory_ids storyStep_distinct)
  then have 4: "distinct (map fst (choiceIds (fst (snd (parseStory h ts es)))))"
    by (simp add: parseStory_story)
  have 5: "erange (duplicateIdError tok) = trange tok \<and> severity (duplicateIdError tok) = SevError"
    by (simp add: duplicateIdError_def)
  from 1 2 3 4 5 show ?thesis by blast
qed

theorem choice_id_registration_witness:
  "perrors
     (storyStep
        \<lparr>ttype = CHOICE_ID, tvalue = ''= sameId'', trange = makeRange 4 2 10,
           tdata = Some (noData\<lparr>choiceId := Some ''sameId'', isHidden := Some False\<rparr>)\<rparr>
        (storyStep
           \<lparr>ttype = CHOICE_ID, tvalue = ''= sameId'', trange = makeRange 2 2 10,
              tdata = Some (noData\<lparr>choiceId := Some ''sameId'', isHidden := Some False\<rparr>)\<rparr>
           (initialStoryState
              \<lparr>ttype = STORY_HEADER, tvalue = ''=== test'', trange = makeRange 0 0 8,
                 tdata = Some (noData\<lparr>storyId := Some ''test''\<rparr>)\<rparr> [])))
     = [\<lparr>message = ''Duplicate choice ID: sameId'', erange = makeRange 4 2 10,
          severity = SevError, code = ''duplicate-choice-id''\<rparr>]
   \<and> choiceIds (story
     (storyStep
        \<lparr>ttype = CHOICE_ID, tvalue = ''= sameId'', trange = makeRange 4 2 10,
           tdata = Some (noData\<lparr>choiceId := Some ''sameId'', isHidden := Some False\<rparr>)\<rparr>
        (storyStep
           \<lparr>ttype = CHOICE_ID, tvalue = ''= sameId'', trange = makeRange 2 2 10,
              tdata = Some (noData\<lparr>choiceId := Some ''sameId'', isHidden := Some False\<rparr>)\<rparr>
           (initialStoryState
              \<lparr>ttype = STORY_HEADER, tvalue = ''=== test'', trange = makeRange 0 0 8,
                 tdata = Some (noData\<lparr>storyId := Some ''test''\<rparr>)\<rparr> []))))
     = [(''start'', \<lparr>ciId = ''start'', ciRange = makeRange 0 0 8, ciIsHidden = True\<rparr>),
        (''sameId'', \<lparr>ciId = ''sameId'', ciRange = makeRange 2 2 10, ciIsHidden = False\<rparr>)]
   \<and> parseErrors (parse (''=== test'' @ [CHR 0x0A] @ ''* Choice one'' @ [CHR 0x0A]
                          @ ''  = sameId'' @ [CHR 0x0A] @ ''* Choice two'' @ [CHR 0x0A]
                          @ ''  = sameId''))
     = [\<lparr>message = ''Duplicate choice ID: sameId'', erange = makeRange 4 2 10,
          severity = SevError, code = ''duplicate-choice-id''\<rparr>]"
proof -
  let ?H = "\<lparr>ttype = STORY_HEADER, tvalue = ''=== test'', trange = makeRange 0 0 8,
                 tdata = Some (noData\<lparr>storyId := Some ''test''\<rparr>)\<rparr>"
  let ?T1 = "\<lparr>ttype = CHOICE_ID, tvalue = ''= sameId'', trange = makeRange 2 2 10,
              tdata = Some (noData\<lparr>choiceId := Some ''sameId'', isHidden := Some False\<rparr>)\<rparr>"
  let ?T2 = "\<lparr>ttype = CHOICE_ID, tvalue = ''= sameId'', trange = makeRange 4 2 10,
           tdata = Some (noData\<lparr>choiceId := Some ''sameId'', isHidden := Some False\<rparr>)\<rparr>"
  let ?S1 = "storyStep ?T1 (initialStoryState ?H [])"
  have hyp: "ttype ?T2 = CHOICE_ID \<and> mapHas (choiceIds (story ?S1)) (tokChoiceId ?T2)"
    by code_simp
  have base: "perrors ?S1 = []"
    "choiceIds (story ?S1)
       = [(''start'', \<lparr>ciId = ''start'', ciRange = makeRange 0 0 8, ciIsHidden = True\<rparr>),
          (''sameId'', \<lparr>ciId = ''sameId'', ciRange = makeRange 2 2 10, ciIsHidden = False\<rparr>)]"
    "duplicateIdError ?T2
       = \<lparr>message = ''Duplicate choice ID: sameId'', erange = makeRange 4 2 10,
          severity = SevError, code = ''duplicate-choice-id''\<rparr>"
    by code_simp+
  have e2e: "parseErrors (parse (''=== test'' @ [CHR 0x0A] @ ''* Choice one'' @ [CHR 0x0A]
                          @ ''  = sameId'' @ [CHR 0x0A] @ ''* Choice two'' @ [CHR 0x0A]
                          @ ''  = sameId''))
     = [\<lparr>message = ''Duplicate choice ID: sameId'', erange = makeRange 4 2 10,
          severity = SevError, code = ''duplicate-choice-id''\<rparr>]"
    by code_simp
  note T = choice_id_registration [where tok = ?T2 and st = ?S1, THEN conjunct1, rule_format, OF hyp]
  show ?thesis using T base e2e by simp
qed

text \<open>
  Claim C10. A new story's map has the key \<open>start\<close>, bound to an entry with the range of the
  header, and the parsed story still has that very entry. So every \<open>CHOICE_ID\<close> token with
  the identifier \<open>start\<close> (a line \<open>= start\<close> or a hidden marker \<open>*= start\<close>), even the first
  one of the story, pushes a "Duplicate choice ID" error, which is among the errors of
  \<open>parseStory\<close>, and is not inserted.
\<close>

theorem start_is_seeded:
  "mapGet (choiceIds (newStory h)) ''start'' = Some (startEntry h)
   \<and> mapGet (choiceIds (fst (snd (parseStory h ts es)))) ''start'' = Some (startEntry h)
   \<and> (ttype tok = CHOICE_ID \<and> tokChoiceId tok = ''start''
        \<and> mapGet (choiceIds (story st)) ''start'' = Some (startEntry h) \<longrightarrow>
       perrors (storyStep tok st) = perrors st @ [duplicateIdError tok]
       \<and> choiceIds (story (storyStep tok st)) = choiceIds (story st))
   \<and> (ttype tok = CHOICE_ID \<and> tokChoiceId tok = ''start'' \<and> (\<forall>x \<in> set pre. isStoryToken x) \<longrightarrow>
       duplicateIdError tok \<in> set (snd (snd (parseStory h (pre @ tok # post) es))))"
proof -
  let ?P = "\<lambda>s. mapGet (choiceIds (story s)) ''start'' = Some (startEntry h)"
  have init: "?P (initialStoryState h es)"
    by (simp add: initialStoryState_def newStory_ids mapGet_def)
  have 1: "mapGet (choiceIds (newStory h)) ''start'' = Some (startEntry h)"
    by (simp add: newStory_ids mapGet_def)
  have "?P (snd (snd (storyLoop ts h (initialStoryState h es))))"
    by (rule storyLoop_invariant [where P = ?P]) (simp_all add: init storyStep_mapGet)
  then have 2: "mapGet (choiceIds (fst (snd (parseStory h ts es)))) ''start'' = Some (startEntry h)"
    by (simp add: parseStory_story)
  have step: "perrors (storyStep tok s) = perrors s @ [duplicateIdError tok]
       \<and> choiceIds (story (storyStep tok s)) = choiceIds (story s)"
    if "ttype tok = CHOICE_ID" "tokChoiceId tok = ''start''" "?P s" for s
  proof -
    have "mapHas (choiceIds (story s)) (tokChoiceId tok)"
      using that by (simp add: mapGet_imp_mapHas)
    then show ?thesis
      using that(1) by (simp add: storyStep_ids) (simp add: storyStep_def stepChoiceId_perrors)
  qed
  have 3: "ttype tok = CHOICE_ID \<and> tokChoiceId tok = ''start''
        \<and> mapGet (choiceIds (story st)) ''start'' = Some (startEntry h) \<longrightarrow>
       perrors (storyStep tok st) = perrors st @ [duplicateIdError tok]
       \<and> choiceIds (story (storyStep tok st)) = choiceIds (story st)"
    using step [of st] by blast
  have 4: "ttype tok = CHOICE_ID \<and> tokChoiceId tok = ''start'' \<and> (\<forall>x \<in> set pre. isStoryToken x) \<longrightarrow>
       duplicateIdError tok \<in> set (snd (snd (parseStory h (pre @ tok # post) es)))"
  proof
    assume a: "ttype tok = CHOICE_ID \<and> tokChoiceId tok = ''start'' \<and> (\<forall>x \<in> set pre. isStoryToken x)"
    define s1 where "s1 = fold storyStep pre (initialStoryState h es)"
    have p1: "?P s1" unfolding s1_def
      by (rule fold_storyStep_invariant [where P = ?P]) (simp_all add: init storyStep_mapGet)
    have tokS: "isStoryToken tok" using a by (simp add: isStoryToken_def)
    have "storyLoop (pre @ tok # post) h (initialStoryState h es)
          = storyLoop (tok # post) (last (h # pre)) s1"
      unfolding s1_def using a by (intro storyLoop_append) simp
    also have "\<dots> = storyLoop post tok (storyStep tok s1)"
      using tokS by (simp add: isStoryToken_def)
    finally have e: "storyLoop (pre @ tok # post) h (initialStoryState h es)
          = storyLoop post tok (storyStep tok s1)" .
    obtain new where "perrors (snd (snd (storyLoop post tok (storyStep tok s1))))
                      = perrors (storyStep tok s1) @ new"
      using storyLoop_perrors by blast
    then have "duplicateIdError tok \<in> set (perrors (snd (snd (storyLoop post tok (storyStep tok s1)))))"
      using step [of s1] a p1 by simp
    then show "duplicateIdError tok \<in> set (snd (snd (parseStory h (pre @ tok # post) es)))"
      by (simp add: parseStory_story e)
  qed
  from 1 2 3 4 show ?thesis by blast
qed

theorem start_is_seeded_witness:
  "mapGet (choiceIds (fst (snd (parseStory
      \<lparr>ttype = STORY_HEADER, tvalue = ''=== t'', trange = makeRange 0 0 5,
         tdata = Some (noData\<lparr>storyId := Some ''t''\<rparr>)\<rparr>
      [\<lparr>ttype = CHOICE_ID, tvalue = ''= start'', trange = makeRange 2 0 7,
          tdata = Some (noData\<lparr>choiceId := Some ''start'', isHidden := Some False\<rparr>)\<rparr>]
      [])))) ''start''
     = Some \<lparr>ciId = ''start'', ciRange = makeRange 0 0 5, ciIsHidden = True\<rparr>
   \<and> \<lparr>message = ''Duplicate choice ID: start'', erange = makeRange 2 0 7,
        severity = SevError, code = ''duplicate-choice-id''\<rparr>
     \<in> set (snd (snd (parseStory
      \<lparr>ttype = STORY_HEADER, tvalue = ''=== t'', trange = makeRange 0 0 5,
         tdata = Some (noData\<lparr>storyId := Some ''t''\<rparr>)\<rparr>
      ([\<lparr>ttype = CHOICE, tvalue = ''* a'', trange = makeRange 1 0 3,
           tdata = Some (noData\<lparr>choiceLevel := Some 1\<rparr>)\<rparr>]
       @ \<lparr>ttype = CHOICE_ID, tvalue = ''= start'', trange = makeRange 2 0 7,
            tdata = Some (noData\<lparr>choiceId := Some ''start'', isHidden := Some False\<rparr>)\<rparr>
       # [])
      [])))
   \<and> parseErrors (parse (''=== t'' @ [CHR 0x0A] @ ''*= start''))
     = [\<lparr>message = ''Duplicate choice ID: start'', erange = makeRange 1 0 8,
          severity = SevError, code = ''duplicate-choice-id''\<rparr>]"
proof -
  let ?H = "\<lparr>ttype = STORY_HEADER, tvalue = ''=== t'', trange = makeRange 0 0 5,
         tdata = Some (noData\<lparr>storyId := Some ''t''\<rparr>)\<rparr>"
  let ?C = "\<lparr>ttype = CHOICE, tvalue = ''* a'', trange = makeRange 1 0 3,
           tdata = Some (noData\<lparr>choiceLevel := Some 1\<rparr>)\<rparr>"
  let ?T = "\<lparr>ttype = CHOICE_ID, tvalue = ''= start'', trange = makeRange 2 0 7,
          tdata = Some (noData\<lparr>choiceId := Some ''start'', isHidden := Some False\<rparr>)\<rparr>"
  have hyp: "ttype ?T = CHOICE_ID \<and> tokChoiceId ?T = ''start'' \<and> (\<forall>x \<in> set [?C]. isStoryToken x)"
    by (simp add: tokChoiceId_def noData_def isStoryToken_def)
  have v: "startEntry ?H = \<lparr>ciId = ''start'', ciRange = makeRange 0 0 5, ciIsHidden = True\<rparr>"
    "duplicateIdError ?T = \<lparr>message = ''Duplicate choice ID: start'', erange = makeRange 2 0 7,
        severity = SevError, code = ''duplicate-choice-id''\<rparr>"
    by code_simp+
  have e2e: "parseErrors (parse (''=== t'' @ [CHR 0x0A] @ ''*= start''))
     = [\<lparr>message = ''Duplicate choice ID: start'', erange = makeRange 1 0 8,
          severity = SevError, code = ''duplicate-choice-id''\<rparr>]"
    by code_simp
  note A = start_is_seeded [where h = ?H and ts = "[?T]" and es = "[]",
              THEN conjunct2, THEN conjunct1]
  note B = start_is_seeded [where h = ?H and tok = ?T and pre = "[?C]" and post = "[]" and es = "[]",
              THEN conjunct2, THEN conjunct2, THEN conjunct2, rule_format, OF hyp]
  show ?thesis using A B e2e unfolding v by simp
qed

section \<open>Properties of the choice tree\<close>

subsection \<open>References\<close>



lemma children_setChildren [simp]: "children (setChildren ch n) = ch"
  by (cases n) simp

lemma children_push [simp]:
  "children (pushChild c n) = children n @ [c]"
  "children (pushRequirement r n) = children n"
  "children (pushMutation r n) = children n"
  "children (pushJump j n) = children n"
  "children (pushPageBreak b n) = children n"
  "children (setId i n) = children n"
  by (cases n; simp)+

lemma keepsChildren_push [simp]:
  "keepsChildren (pushChild c)" "keepsChildren (pushRequirement r)"
  "keepsChildren (pushMutation r)" "keepsChildren (pushJump j)"
  "keepsChildren (pushPageBreak b)" "keepsChildren (setId i)"
  by (simp_all add: keepsChildren_def)

lemma length_updateAt [simp]: "length (updateAt p f cs) = length cs"
  by (induction p f cs rule: updateAt.induct) simp_all




















lemma pushRoot_rest [simp]:
  "choiceStack (fst (pushRoot n st)) = choiceStack st"
  "currentChoice (fst (pushRoot n st)) = currentChoice st"
  by (simp_all add: pushRoot_def)





text \<open>
  Claim C7 fails on the code. The hidden marker \<open>**= h\<close> after the choice \<open>* a\<close> gives a choice
  of level 2 with empty text that is a root of the story, not a child of \<open>a\<close>, where the line
  \<open>** h\<close> gives a child of \<open>a\<close>; and the hidden marker \<open>**= h\<close> with no open choice pushes no
  "orphaned choice" error, where the line \<open>** h\<close> does.
\<close>

theorem hidden_choice_goes_to_root:
  "map choices (stories (parse (''=== t'' @ [CHR 0x0A] @ ''* a'' @ [CHR 0x0A] @ ''**= h'')))
     = [ [ChoiceNode 1 ''a'' (makeRange 1 0 3) None [] [] [] [] [],
         ChoiceNode 2 [] (makeRange 2 0 5)
           (Some \<lparr>ciId = ''h'', ciRange = makeRange 2 0 5, ciIsHidden = True\<rparr>) [] [] [] [] [] ] ]
   \<and> parseErrors (parse (''=== t'' @ [CHR 0x0A] @ ''* a'' @ [CHR 0x0A] @ ''**= h'')) = []
   \<and> map choices (stories (parse (''=== t'' @ [CHR 0x0A] @ ''* a'' @ [CHR 0x0A] @ ''** h'')))
     = [ [ChoiceNode 1 ''a'' (makeRange 1 0 3) None [] [] []
           [ChoiceNode 2 ''h'' (makeRange 2 0 4) None [] [] [] [] [] ] [] ] ]
   \<and> parseErrors (parse (''=== t'' @ [CHR 0x0A] @ ''**= h''))= []
   \<and> parseErrors (parse (''=== t'' @ [CHR 0x0A] @ ''** h''))
     = [\<lparr>message = ''Choice level 2 has no parent choice'', erange = makeRange 1 0 4,
          severity = SevError, code = ''orphaned-choice''\<rparr>]"
  by code_simp


end
